theory Spec2Isabelle
  imports Main "HOL-Library.Sublist" "HOL-Library.Multiset"
begin

section \<open>Label reconciliation of the label commands\<close>

text \<open>
  Label IDs are strings and the commands keep them in arrays, so the model uses lists:
  order and repetitions are visible, as in the source. \<open>existingLabelIds\<close> are the
  IDs the issue carries, \<open>addLabelIds\<close> and \<open>removeLabelIds\<close> come from the flags
  \<open>--add-labels\<close> and \<open>--remove-labels\<close> of \<open>issues bulk-label\<close>.
\<close>

text \<open>\<open>addLabelIds.filter((id) => !existingLabelIds.includes(id))\<close>\<close>

definition labelsToAdd :: "string list \<Rightarrow> string list \<Rightarrow> string list" where
  "labelsToAdd addLabelIds existingLabelIds =
     filter (\<lambda>i. \<not> List.member existingLabelIds i) addLabelIds"

text \<open>\<open>removeLabelIds.filter((id) => existingLabelIds.includes(id))\<close>\<close>

definition labelsToRemove :: "string list \<Rightarrow> string list \<Rightarrow> string list" where
  "labelsToRemove removeLabelIds existingLabelIds =
     filter (\<lambda>i. List.member existingLabelIds i) removeLabelIds"

text \<open>
  \<open>[...existingLabelIds.filter((id) => !removeLabelIds.includes(id)), ...labelsToAdd]\<close>:
  the array handed to \<open>client.updateIssue\<close> by \<open>issues bulk-label\<close>.
\<close>

definition newLabelIds :: "string list \<Rightarrow> string list \<Rightarrow> string list \<Rightarrow> string list" where
  "newLabelIds existingLabelIds addLabelIds removeLabelIds =
     filter (\<lambda>i. \<not> List.member removeLabelIds i) existingLabelIds
       @ labelsToAdd addLabelIds existingLabelIds"

text \<open>
  \<open>labelsToAdd.length > 0 ? labelsToAdd : undefined\<close>: an empty array is reported as
  an absent field.
\<close>

definition reported :: "string list \<Rightarrow> string list option" where
  "reported xs = (if length xs > 0 then Some xs else None)"

text \<open>
  \<open>[...new Set(xs)]\<close>: a JavaScript \<open>Set\<close> built from an array keeps the first
  occurrence of every value, in insertion order.
\<close>

fun set_add :: "string list \<Rightarrow> string \<Rightarrow> string list" where
  "set_add acc x = (if List.member acc x then acc else acc @ [x])"

definition new_Set :: "string list \<Rightarrow> string list" where
  "new_Set xs = foldl set_add [] xs"

text \<open>\<open>issues add-labels\<close>: \<open>[...new Set([...existingLabelIds, ...newLabelIds])]\<close>\<close>

definition combinedLabelIds :: "string list \<Rightarrow> string list \<Rightarrow> string list" where
  "combinedLabelIds existingLabelIds newIds = new_Set (existingLabelIds @ newIds)"

text \<open>\<open>issues add-labels\<close>: \<open>newLabelIds.filter((id) => !existingLabelIds.includes(id))\<close>\<close>

definition labelsAdded_single :: "string list \<Rightarrow> string list \<Rightarrow> string list" where
  "labelsAdded_single newIds existingLabelIds =
     filter (\<lambda>i. \<not> List.member existingLabelIds i) newIds"

text \<open>
  \<open>issues remove-labels\<close>:
  \<open>existingLabelIds.filter((id) => !labelIdsToRemove.includes(id))\<close> is sent to the update
  call and \<open>labelIdsToRemove.filter((id) => existingLabelIds.includes(id))\<close> is reported.
\<close>

definition remainingLabelIds :: "string list \<Rightarrow> string list \<Rightarrow> string list" where
  "remainingLabelIds existingLabelIds labelIdsToRemove =
     filter (\<lambda>i. \<not> List.member labelIdsToRemove i) existingLabelIds"

definition labelsRemoved_single :: "string list \<Rightarrow> string list \<Rightarrow> string list" where
  "labelsRemoved_single labelIdsToRemove existingLabelIds =
     filter (\<lambda>i. List.member existingLabelIds i) labelIdsToRemove"


section \<open>JavaScript strings: \<open>split\<close> and \<open>trim\<close>\<close>

text \<open>
  A string is the list of the bytes of its UTF-8 encoding. The separator of
  \<open>String.prototype.split\<close> is the one-byte string \<open>","\<close>, which never occurs inside a
  multi-byte sequence. \<open>split_from cur s\<close> scans \<open>s\<close> with the piece \<open>cur\<close> read so
  far: a string with \<open>n\<close> separators gives \<open>n + 1\<close> pieces, the empty string gives
  \<open>[""]\<close>.
\<close>

fun split_from :: "char \<Rightarrow> string \<Rightarrow> string \<Rightarrow> string list" where
  "split_from sep cur [] = [cur]"
| "split_from sep cur (c # cs) =
     (if c = sep then cur # split_from sep [] cs else split_from sep (cur @ [c]) cs)"

definition split :: "char \<Rightarrow> string \<Rightarrow> string list" where
  "split sep s = split_from sep [] s"

text \<open>
  The code points ECMAScript counts as white space or line terminators, as UTF-8 byte
  sequences: TAB, LF, VT, FF, CR, SP, U+00A0, U+1680, U+2000 to U+200A, U+2028, U+2029,
  U+202F, U+205F, U+3000 and U+FEFF.
\<close>

definition white_space :: "string list" where
  "white_space =
     [[CHR 0x09], [CHR 0x0A], [CHR 0x0B], [CHR 0x0C], [CHR 0x0D], [CHR 0x20],
      [CHR 0xC2, CHR 0xA0],
      [CHR 0xE1, CHR 0x9A, CHR 0x80],
      [CHR 0xE2, CHR 0x80, CHR 0x80], [CHR 0xE2, CHR 0x80, CHR 0x81],
      [CHR 0xE2, CHR 0x80, CHR 0x82], [CHR 0xE2, CHR 0x80, CHR 0x83],
      [CHR 0xE2, CHR 0x80, CHR 0x84], [CHR 0xE2, CHR 0x80, CHR 0x85],
      [CHR 0xE2, CHR 0x80, CHR 0x86], [CHR 0xE2, CHR 0x80, CHR 0x87],
      [CHR 0xE2, CHR 0x80, CHR 0x88], [CHR 0xE2, CHR 0x80, CHR 0x89],
      [CHR 0xE2, CHR 0x80, CHR 0x8A],
      [CHR 0xE2, CHR 0x80, CHR 0xA8], [CHR 0xE2, CHR 0x80, CHR 0xA9],
      [CHR 0xE2, CHR 0x80, CHR 0xAF],
      [CHR 0xE2, CHR 0x81, CHR 0x9F],
      [CHR 0xE3, CHR 0x80, CHR 0x80],
      [CHR 0xEF, CHR 0xBB, CHR 0xBF]]"

function trimStart :: "string \<Rightarrow> string" where
  "trimStart s =
     (case find (\<lambda>w. prefix w s) white_space of
        None \<Rightarrow> s
      | Some w \<Rightarrow> trimStart (drop (length w) s))"
  by pat_completeness auto
termination
proof (relation "measure length")
  show "wf (measure length)" by simp
next
  fix s w :: string
  assume "find (\<lambda>w. prefix w s) white_space = Some w"
  then have "w \<in> set white_space" and "prefix w s"
    by (auto simp: find_Some_iff)
  then have "w \<noteq> []" and "length w \<le> length s"
    by (auto simp: white_space_def prefix_length_le)
  then show "(drop (length w) s, s) \<in> measure length"
    by (cases s) auto
qed

function trimEnd :: "string \<Rightarrow> string" where
  "trimEnd s =
     (case find (\<lambda>w. suffix w s) white_space of
        None \<Rightarrow> s
      | Some w \<Rightarrow> trimEnd (take (length s - length w) s))"
  by pat_completeness auto
termination
proof (relation "measure length")
  show "wf (measure length)" by simp
next
  fix s w :: string
  assume "find (\<lambda>w. suffix w s) white_space = Some w"
  then have "w \<in> set white_space" and "suffix w s"
    by (auto simp: find_Some_iff)
  then have "w \<noteq> []" and "length w \<le> length s"
    by (auto simp: white_space_def suffix_length_le)
  then show "(take (length s - length w) s, s) \<in> measure length"
    by (cases s) auto
qed

definition trim :: "string \<Rightarrow> string" where
  "trim s = trimEnd (trimStart s)"

text \<open>\<open>flags.ids.split(',').map((id) => id.trim())\<close>, also used for the label flags.\<close>

definition split_trim :: "string \<Rightarrow> string list" where
  "split_trim s = map trim (split CHR '','' s)"


section \<open>Thrown values and the remote service\<close>

datatype ErrorCodes =
  API_ERROR | CONFIG_ERROR | INVALID_INPUT | MISSING_REQUIRED_FIELD | NOT_AUTHENTICATED | NOT_FOUND

text \<open>
  What a \<open>throw\<close> can carry: a \<open>CliError\<close> (an \<open>Error\<close> with a code and a message),
  any other \<open>Error\<close> with its message, or a value that is no \<open>Error\<close> at all. A call
  that can throw returns \<open>thrown + 'a\<close>, with \<open>Inl\<close> for the thrown value.
\<close>

datatype thrown = CliError ErrorCodes string | Error string | NonError

text \<open>\<open>err instanceof Error ? err.message : 'Unknown error'\<close>\<close>

fun message :: "thrown \<Rightarrow> string" where
  "message (CliError code m) = m"
| "message (Error m) = m"
| "message NonError = ''Unknown error''"

text \<open>A string is truthy when it is not empty; \<open>null\<close> and \<open>undefined\<close> are falsy.\<close>

fun truthy :: "string option \<Rightarrow> bool" where
  "truthy None = False"
| "truthy (Some s) = (s \<noteq> [])"

record IssueUpdateInput =
  stateId :: "string option"
  priority :: "int option"
  assigneeId :: "string option option"
  projectId :: "string option"
  estimate :: "int option"
  labelIds :: "string list option"

text \<open>
  The issue object of the SDK, as far as the commands read it: \<open>id\<close>, \<open>identifier\<close> and
  the outcome of \<open>issue.labels()\<close> mapped to the label IDs.
\<close>

record Issue =
  issue_id :: string
  issue_identifier :: string
  labels :: "thrown + string list"

text \<open>
  The payload of \<open>updateIssue\<close>: \<open>payload.success\<close> and the awaited \<open>payload.issue\<close>,
  which may throw or be undefined.
\<close>

record IssuePayload =
  payload_success :: bool
  payload_issue :: "thrown + Issue option"

text \<open>
  The calls a task makes and what they answer: \<open>resolveIssueId(client, identifier)\<close>,
  \<open>client.issue(issueId)\<close> and \<open>client.updateIssue(issueId, input)\<close>. The batch takes
  one such record per position of the input, so that two tasks may get different answers
  to the same call.
\<close>

record Client =
  resolveIssueId :: "string \<Rightarrow> thrown + string"
  issue :: "string \<Rightarrow> thrown + Issue option"
  updateIssue :: "string \<Rightarrow> IssueUpdateInput \<Rightarrow> thrown + IssuePayload"

section \<open>Promise.all\<close>

text \<open>
  \<open>Promise.all\<close> over promises whose values are collected: the array of the values in
  the order of the input, or the rejection of a promise that rejects.
\<close>

fun promise_all_values :: "(thrown + 'a) list \<Rightarrow> thrown + 'a list" where
  "promise_all_values [] = Inr []"
| "promise_all_values (p # ps) =
     (case p of
        Inl e \<Rightarrow> Inl e
      | Inr v \<Rightarrow> (case promise_all_values ps of Inl e \<Rightarrow> Inl e | Inr vs \<Rightarrow> Inr (v # vs)))"

text \<open>
  \<open>Promise.all\<close> over tasks that push to the shared \<open>results\<close> array: the tasks are
  given in the order in which they complete, each takes the array and returns it
  updated, and a task that rejects rejects the whole.
\<close>

fun promise_all_tasks :: "('t \<Rightarrow> 'r \<Rightarrow> thrown + 'r) \<Rightarrow> 't list \<Rightarrow> 'r \<Rightarrow> thrown + 'r" where
  "promise_all_tasks task [] results = Inr results"
| "promise_all_tasks task (t # ts) results =
     (case task t results of
        Inl e \<Rightarrow> Inl e
      | Inr pushed \<Rightarrow> promise_all_tasks task ts pushed)"

section \<open>Per-item results and summaries\<close>

record UpdateResult =
  identifier' :: string
  id' :: string
  success :: bool
  error :: "string option"

record LabelResult = UpdateResult +
  labelsAdded :: "string list option"
  labelsRemoved :: "string list option"

record 'r Summary =
  totalRequested :: nat
  successCount :: nat
  failedCount :: nat
  results' :: "'r list"

record UpdateSummary = "UpdateResult Summary" +
  updatedFields :: "string list"

record LabelSummary = "LabelResult Summary" +
  summary_labelsToAdd :: "string list option"
  summary_labelsToRemove :: "string list option"


section \<open>\<open>issues bulk-label\<close>\<close>

text \<open>
  The body of the \<open>try\<close> block of one task: every \<open>await\<close> may throw, and a result
  is pushed right before each \<open>return\<close> and at the end.
\<close>

definition label_try ::
  "Client \<Rightarrow> string list \<Rightarrow> string list \<Rightarrow> string \<Rightarrow> LabelResult list \<Rightarrow>
     thrown + LabelResult list" where
  "label_try client addLabelIds removeLabelIds identifier results =
     (case resolveIssueId client identifier of
        Inl err \<Rightarrow> Inl err
      | Inr issueId \<Rightarrow>
     (case issue client issueId of
        Inl err \<Rightarrow> Inl err
      | Inr None \<Rightarrow>
          Inr (results @
            [\<lparr>identifier' = identifier, id' = issueId, success = False,
              error = Some ''Issue not found'', labelsAdded = None, labelsRemoved = None\<rparr>])
      | Inr (Some iss) \<Rightarrow>
     (case labels iss of
        Inl err \<Rightarrow> Inl err
      | Inr existingLabelIds \<Rightarrow>
     (case updateIssue client issueId
             \<lparr>stateId = None, priority = None, assigneeId = None, projectId = None,
              estimate = None,
              labelIds = Some (newLabelIds existingLabelIds addLabelIds removeLabelIds)\<rparr> of
        Inl err \<Rightarrow> Inl err
      | Inr payload \<Rightarrow>
          if \<not> payload_success payload then
            Inr (results @
              [\<lparr>identifier' = identifier, id' = issueId, success = False,
                error = Some ''Failed to update labels'', labelsAdded = None,
                labelsRemoved = None\<rparr>])
          else
     (case payload_issue payload of
        Inl err \<Rightarrow> Inl err
      | Inr updatedIssue \<Rightarrow>
          Inr (results @
            [\<lparr>identifier' =
                (case updatedIssue of None \<Rightarrow> identifier | Some u \<Rightarrow> issue_identifier u),
              id' = issueId, success = True, error = None,
              labelsAdded = reported (labelsToAdd addLabelIds existingLabelIds),
              labelsRemoved = reported (labelsToRemove removeLabelIds existingLabelIds)\<rparr>]))))))"

text \<open>The task with its \<open>catch\<close>: what was thrown becomes a failure result.\<close>

definition label_task ::
  "Client \<Rightarrow> string list \<Rightarrow> string list \<Rightarrow> string \<Rightarrow> LabelResult list \<Rightarrow>
     thrown + LabelResult list" where
  "label_task client addLabelIds removeLabelIds identifier results =
     (case label_try client addLabelIds removeLabelIds identifier results of
        Inl err \<Rightarrow>
          Inr (results @
            [\<lparr>identifier' = identifier, id' = [], success = False,
              error = Some (message err), labelsAdded = None, labelsRemoved = None\<rparr>])
      | Inr pushed \<Rightarrow> Inr pushed)"

text \<open>
  From \<open>const results: LabelResult[] = []\<close> to the summary handed to \<open>print\<close>.
  \<open>remote k\<close> answers the calls of the task at position \<open>k\<close>; \<open>order\<close> rearranges the
  tasks into the order in which they complete.
\<close>

definition bulk_label_batch ::
  "(nat \<Rightarrow> Client) \<Rightarrow> ((nat \<times> string) list \<Rightarrow> (nat \<times> string) list) \<Rightarrow>
     string list \<Rightarrow> string list \<Rightarrow> string list \<Rightarrow> thrown + LabelSummary" where
  "bulk_label_batch remote order addLabelIds removeLabelIds identifiers =
     (case promise_all_tasks
             (\<lambda>(k, identifier). label_task (remote k) addLabelIds removeLabelIds identifier)
             (order (enumerate 0 identifiers)) [] of
        Inl err \<Rightarrow> Inl err
      | Inr results \<Rightarrow>
          Inr \<lparr>totalRequested = length identifiers,
               successCount = length (filter (\<lambda>r. success r) results),
               failedCount = length (filter (\<lambda>r. \<not> success r) results),
               results' = results,
               summary_labelsToAdd = reported addLabelIds,
               summary_labelsToRemove = reported removeLabelIds\<rparr>)"

text \<open>The flags \<open>--ids\<close>, \<open>--add-labels\<close> and \<open>--remove-labels\<close>; only \<open>--ids\<close> is required.\<close>

record BulkLabelFlags =
  ids_of_label :: string
  add_labels :: "string option"
  remove_labels :: "string option"

text \<open>
  \<open>IssuesBulkLabel.run\<close> after the flags are parsed: \<open>Inr\<close> is the summary that is
  printed, \<open>Inl\<close> what reaches \<open>handleError\<close>.
\<close>

definition bulk_label_run ::
  "(nat \<Rightarrow> Client) \<Rightarrow> ((nat \<times> string) list \<Rightarrow> (nat \<times> string) list) \<Rightarrow>
     BulkLabelFlags \<Rightarrow> thrown + LabelSummary" where
  "bulk_label_run remote order flags =
     (let addLabelIds = (case add_labels flags of None \<Rightarrow> [] | Some s \<Rightarrow> split_trim s);
          removeLabelIds = (case remove_labels flags of None \<Rightarrow> [] | Some s \<Rightarrow> split_trim s)
      in if length addLabelIds = 0 \<and> length removeLabelIds = 0 then
           Inl (CliError INVALID_INPUT
             ''No label operations specified. Use --add-labels and/or --remove-labels'')
         else
           (let identifiers = split_trim (ids_of_label flags)
            in if length identifiers = 0 then
                 Inl (CliError INVALID_INPUT ''No issue IDs provided'')
               else bulk_label_batch remote order addLabelIds removeLabelIds identifiers))"

section \<open>\<open>issues bulk-update\<close>\<close>

record ResolvedId =
  resolved_identifier :: string
  resolved_id :: "string option"
  resolved_error :: "string option"

text \<open>The first \<open>Promise.all\<close>: resolving never rejects, the error is kept as a field.\<close>

definition resolve_task :: "Client \<Rightarrow> string \<Rightarrow> thrown + ResolvedId" where
  "resolve_task client identifier =
     (case resolveIssueId client identifier of
        Inr i \<Rightarrow>
          Inr \<lparr>resolved_identifier = identifier, resolved_id = Some i, resolved_error = None\<rparr>
      | Inl err \<Rightarrow>
          Inr \<lparr>resolved_identifier = identifier, resolved_id = None,
               resolved_error = Some (message err)\<rparr>)"

text \<open>The \<open>try\<close> block of the second \<open>Promise.all\<close>, for a resolved \<open>id\<close>.\<close>

definition update_try ::
  "Client \<Rightarrow> IssueUpdateInput \<Rightarrow> string \<Rightarrow> string \<Rightarrow> UpdateResult list \<Rightarrow>
     thrown + UpdateResult list" where
  "update_try client input identifier i results =
     (case updateIssue client i input of
        Inl err \<Rightarrow> Inl err
      | Inr payload \<Rightarrow>
     (case payload_issue payload of
        Inl err \<Rightarrow> Inl err
      | Inr None \<Rightarrow>
          Inr (results @
            [\<lparr>identifier' = identifier, id' = i, success = False,
              error = Some ''Failed to update issue''\<rparr>])
      | Inr (Some iss) \<Rightarrow>
          Inr (results @
            [\<lparr>identifier' = issue_identifier iss, id' = issue_id iss, success = True,
              error = None\<rparr>])))"

text \<open>
  \<open>if (error || !id)\<close> pushes \<open>{identifier, id: id ?? '', success: false,
  error: error ?? 'Failed to resolve issue ID'}\<close>.
\<close>

definition unresolved :: "ResolvedId \<Rightarrow> UpdateResult" where
  "unresolved r =
     \<lparr>identifier' = resolved_identifier r,
      id' = (case resolved_id r of None \<Rightarrow> [] | Some i \<Rightarrow> i),
      success = False,
      error = Some (case resolved_error r of
                      None \<Rightarrow> ''Failed to resolve issue ID'' | Some e \<Rightarrow> e)\<rparr>"

definition update_task ::
  "Client \<Rightarrow> IssueUpdateInput \<Rightarrow> ResolvedId \<Rightarrow> UpdateResult list \<Rightarrow>
     thrown + UpdateResult list" where
  "update_task client input r results =
     (if truthy (resolved_error r) \<or> \<not> truthy (resolved_id r) then
        Inr (results @ [unresolved r])
      else
        (case resolved_id r of
           None \<Rightarrow> Inr (results @ [unresolved r])
         | Some i \<Rightarrow>
             (case update_try client input (resolved_identifier r) i results of
                Inl err \<Rightarrow>
                  Inr (results @
                    [\<lparr>identifier' = resolved_identifier r, id' = i, success = False,
                      error = Some (message err)\<rparr>])
              | Inr pushed \<Rightarrow> Inr pushed)))"

text \<open>\<open>Object.keys(input)\<close>: the fields that were assigned, in the order of assignment.\<close>

definition keys :: "IssueUpdateInput \<Rightarrow> string list" where
  "keys input =
     (if stateId input = None then [] else [''stateId'']) @
     (if priority input = None then [] else [''priority'']) @
     (if assigneeId input = None then [] else [''assigneeId'']) @
     (if projectId input = None then [] else [''projectId'']) @
     (if estimate input = None then [] else [''estimate'']) @
     (if labelIds input = None then [] else [''labelIds''])"

text \<open>From \<open>const results: UpdateResult[] = []\<close> to the summary handed to \<open>print\<close>.\<close>

definition bulk_update_batch ::
  "(nat \<Rightarrow> Client) \<Rightarrow> ((nat \<times> ResolvedId) list \<Rightarrow> (nat \<times> ResolvedId) list) \<Rightarrow>
     IssueUpdateInput \<Rightarrow> string list \<Rightarrow> thrown + UpdateSummary" where
  "bulk_update_batch remote order input identifiers =
     (case promise_all_values
             (map (\<lambda>(k, identifier). resolve_task (remote k) identifier)
                (enumerate 0 identifiers)) of
        Inl err \<Rightarrow> Inl err
      | Inr resolvedIds \<Rightarrow>
     (case promise_all_tasks (\<lambda>(k, r). update_task (remote k) input r)
             (order (enumerate 0 resolvedIds)) [] of
        Inl err \<Rightarrow> Inl err
      | Inr results \<Rightarrow>
          Inr \<lparr>totalRequested = length identifiers,
               successCount = length (filter (\<lambda>r. success r) results),
               failedCount = length (filter (\<lambda>r. \<not> success r) results),
               results' = results,
               updatedFields = keys input\<rparr>))"

text \<open>
  The flags \<open>--ids\<close> (required), \<open>--state-id\<close>, \<open>--priority\<close>, \<open>--assignee-id\<close>,
  \<open>--project-id\<close>, \<open>--estimate\<close> and \<open>--label-ids\<close>.
\<close>

record BulkUpdateFlags =
  ids_of_update :: string
  flag_state_id :: "string option"
  flag_priority :: "int option"
  flag_assignee_id :: "string option"
  flag_project_id :: "string option"
  flag_estimate :: "int option"
  flag_label_ids :: "string option"

text \<open>
  The update input built from the flags: a string flag is taken when it is truthy,
  except \<open>--assignee-id\<close>, which is taken when given and turns the empty string into
  \<open>null\<close>.
\<close>

definition build_input :: "BulkUpdateFlags \<Rightarrow> IssueUpdateInput" where
  "build_input flags =
     \<lparr>stateId = (if truthy (flag_state_id flags) then flag_state_id flags else None),
      priority = flag_priority flags,
      assigneeId = (case flag_assignee_id flags of
                      None \<Rightarrow> None
                    | Some a \<Rightarrow> Some (if a \<noteq> [] then Some a else None)),
      projectId = (if truthy (flag_project_id flags) then flag_project_id flags else None),
      estimate = flag_estimate flags,
      labelIds = (case flag_label_ids flags of
                    None \<Rightarrow> None
                  | Some s \<Rightarrow> if s \<noteq> [] then Some (split_trim s) else None)\<rparr>"

text \<open>\<open>IssuesBulkUpdate.run\<close> after the flags are parsed.\<close>

definition bulk_update_run ::
  "(nat \<Rightarrow> Client) \<Rightarrow> ((nat \<times> ResolvedId) list \<Rightarrow> (nat \<times> ResolvedId) list) \<Rightarrow>
     BulkUpdateFlags \<Rightarrow> thrown + UpdateSummary" where
  "bulk_update_run remote order flags =
     (let input = build_input flags
      in if length (keys input) = 0 then
           Inl (CliError INVALID_INPUT
             ''No update fields provided. Use at least one of: --state-id, --priority, --assignee-id, --project-id, --estimate, --label-ids'')
         else
           (let identifiers = split_trim (ids_of_update flags)
            in if length identifiers = 0 then
                 Inl (CliError INVALID_INPUT ''No issue IDs provided'')
               else bulk_update_batch remote order input identifiers))"


section \<open>Identifier resolution\<close>

text \<open>
  Modelled from the spec: the errors of the identifier resolver and the shapes a token
  can have. The resolver (\<open>resolveIssueId\<close> of \<open>lib/issue-utils\<close>) is imported by the
  commands, and its source is not available.
\<close>

datatype ResolutionError = InvalidIdentifierFormat | NotFound

datatype TokenShape = OpaqueId | CompositeKey string nat | Invalid

text \<open>
  Modelled from the spec: the character classes of the two shapes, hex digits for the
  opaque ID, letters for the prefix and decimal digits for the number.
\<close>

definition is_hex :: "char \<Rightarrow> bool" where
  "is_hex c = (c \<in> set ''0123456789abcdefABCDEF'')"

definition is_digit :: "char \<Rightarrow> bool" where
  "is_digit c = (c \<in> set ''0123456789'')"

definition is_letter :: "char \<Rightarrow> bool" where
  "is_letter c = (c \<in> set ''abcdefghijklmnopqrstuvwxyzABCDEFGHIJKLMNOPQRSTUVWXYZ'')"

text \<open>
  Modelled from the spec: the opaque-ID shape of the identifier resolver, whose source
  (\<open>lib/issue-utils\<close>) is not available. The spec calls it a fixed-length hex/UUID-like
  pattern: 36 characters, hyphens at positions 8, 13, 18 and 23, hex digits elsewhere.
\<close>

definition is_opaque_id :: "string \<Rightarrow> bool" where
  "is_opaque_id token =
     (length token = 36 \<and>
      list_all (\<lambda>(i, c). if i \<in> set [8, 13, 18, 23] then c = CHR ''-'' else is_hex c)
        (enumerate 0 token))"

text \<open>
  Modelled from the spec: the value of the decimal number after the hyphen.
\<close>

definition digit_value :: "char \<Rightarrow> nat" where
  "digit_value c = of_char c - of_char CHR ''0''"

definition number_of :: "string \<Rightarrow> nat" where
  "number_of ds = foldl (\<lambda>n c. 10 * n + digit_value c) 0 ds"

text \<open>
  Modelled from the spec: the composite shape \<open>PREFIX-NUMBER\<close> of the identifier
  resolver, with a prefix of letters of either case and a positive integer suffix.
\<close>

definition parse_composite :: "string \<Rightarrow> (string \<times> nat) option" where
  "parse_composite token =
     (let key = takeWhile is_letter token; rest = dropWhile is_letter token
      in case rest of
           [] \<Rightarrow> None
         | c # ds \<Rightarrow>
             if key \<noteq> [] \<and> c = CHR ''-'' \<and> ds \<noteq> [] \<and> list_all is_digit ds
                \<and> 0 < number_of ds
             then Some (key, number_of ds) else None)"

text \<open>
  Modelled from the spec: the single parse step of the identifier resolver that
  classifies a token, the opaque shape first.
\<close>

definition classify :: "string \<Rightarrow> TokenShape" where
  "classify token =
     (if is_opaque_id token then OpaqueId
      else case parse_composite token of
             Some (p, n) \<Rightarrow> CompositeKey p n
           | None \<Rightarrow> Invalid)"

text \<open>
  Modelled from the spec: \<open>resolve\<close> of the identifier resolver (\<open>resolveIssueId\<close> of
  \<open>lib/issue-utils\<close>, which is not among the sources). \<open>lookupByComposite\<close> is the call to
  the remote service, \<open>None\<close> when no entity matches; \<open>calls\<close> is the log of the lookups
  sent so far, returned extended by the lookups of this resolution.
\<close>

definition resolve ::
  "(string \<Rightarrow> nat \<Rightarrow> string option) \<Rightarrow> string \<Rightarrow> (string \<times> nat) list \<Rightarrow>
     (ResolutionError + string) \<times> (string \<times> nat) list" where
  "resolve lookupByComposite token calls =
     (case classify token of
        OpaqueId \<Rightarrow> (Inr token, calls)
      | Invalid \<Rightarrow> (Inl InvalidIdentifierFormat, calls)
      | CompositeKey p n \<Rightarrow>
          (case lookupByComposite p n of
             None \<Rightarrow> (Inl NotFound, calls @ [(p, n)])
           | Some i \<Rightarrow> (Inr i, calls @ [(p, n)])))"

section \<open>The config file\<close>

text \<open>
  The file system as \<open>writeConfig\<close> sees it: the content of every file and the set of
  directories.
\<close>

record FileSystem =
  files :: "string \<rightharpoonup> string"
  dirs :: "string set"

text \<open>
  What the environment does to the calls of one \<open>writeConfig\<close>: \<open>None\<close> lets a call
  through, \<open>Some\<close> makes it throw. A failing \<open>writeFileSync\<close> also says what it leaves
  at the path: nothing, or any content, such as a part of the data.
\<close>

record Faults =
  mkdir_fault :: "thrown option"
  write_fault :: "(thrown \<times> string option) option"
  rename_fault :: "thrown option"
  unlink_fault :: "thrown option"

definition existsSync :: "string \<Rightarrow> FileSystem \<Rightarrow> bool" where
  "existsSync p fs = (p \<in> dirs fs \<or> files fs p \<noteq> None)"

definition mkdirSync :: "thrown option \<Rightarrow> string \<Rightarrow> FileSystem \<Rightarrow> (thrown + unit) \<times> FileSystem" where
  "mkdirSync fault p fs =
     (case fault of
        Some e \<Rightarrow> (Inl e, fs)
      | None \<Rightarrow> (Inr (), fs\<lparr>dirs := insert p (dirs fs)\<rparr>))"

definition writeFileSync ::
  "(thrown \<times> string option) option \<Rightarrow> string \<Rightarrow> string \<Rightarrow> FileSystem \<Rightarrow>
     (thrown + unit) \<times> FileSystem" where
  "writeFileSync fault p data fs =
     (case fault of
        Some (e, left) \<Rightarrow> (Inl e, fs\<lparr>files := (files fs)(p := left)\<rparr>)
      | None \<Rightarrow> (Inr (), fs\<lparr>files := (files fs)(p \<mapsto> data)\<rparr>))"

text \<open>
  \<open>writeFileSync\<close> touches the file at its path only, also while it runs.
  \<open>renameSync\<close> replaces the target in one step, or throws and changes nothing.
\<close>

definition renameSync ::
  "thrown option \<Rightarrow> string \<Rightarrow> string \<Rightarrow> FileSystem \<Rightarrow> (thrown + unit) \<times> FileSystem" where
  "renameSync fault old new fs =
     (case fault of
        Some e \<Rightarrow> (Inl e, fs)
      | None \<Rightarrow>
          (case files fs old of
             None \<Rightarrow> (Inl (Error ''ENOENT: no such file or directory''), fs)
           | Some d \<Rightarrow> (Inr (), fs\<lparr>files := ((files fs)(old := None))(new \<mapsto> d)\<rparr>)))"

definition unlinkSync :: "thrown option \<Rightarrow> string \<Rightarrow> FileSystem \<Rightarrow> (thrown + unit) \<times> FileSystem" where
  "unlinkSync fault p fs =
     (case fault of
        Some e \<Rightarrow> (Inl e, fs)
      | None \<Rightarrow>
          (case files fs p of
             None \<Rightarrow> (Inl (Error ''ENOENT: no such file or directory''), fs)
           | Some d \<Rightarrow> (Inr (), fs\<lparr>files := (files fs)(p := None)\<rparr>)))"

text \<open>\<open>join\<close> of a directory and a file name; the normalisation of the path is left out.\<close>

definition join :: "string \<Rightarrow> string \<Rightarrow> string" where
  "join dir name = dir @ ''/'' @ name"

definition CONFIG_DIR :: "string \<Rightarrow> string" where
  "CONFIG_DIR homedir = join homedir ''.linear-cli-agents''"

definition CONFIG_FILE :: "string \<Rightarrow> string" where
  "CONFIG_FILE homedir = join (CONFIG_DIR homedir) ''config.json''"

text \<open>The decimal digits of \<open>Date.now()\<close>, as the template string prints them.\<close>

fun decimal :: "nat \<Rightarrow> string" where
  "decimal n =
     (if n < 10 then [char_of (48 + n)]
      else decimal (n div 10) @ [char_of (48 + n mod 10)])"

definition tempFile :: "string \<Rightarrow> nat \<Rightarrow> string" where
  "tempFile homedir now = join (CONFIG_DIR homedir) (''config.json.tmp.'' @ decimal now)"

definition ensureConfigDir :: "Faults \<Rightarrow> string \<Rightarrow> FileSystem \<Rightarrow> (thrown + unit) \<times> FileSystem" where
  "ensureConfigDir faults homedir fs =
     (if \<not> existsSync (CONFIG_DIR homedir) fs
      then mkdirSync (mkdir_fault faults) (CONFIG_DIR homedir) fs
      else (Inr (), fs))"

text \<open>
  The \<open>catch\<close> block of \<open>writeConfig\<close>: the temp file is unlinked, an error of the unlink
  is ignored, and a \<open>CliError\<close> is thrown. \<open>trace\<close> holds the states of the file system
  so far.
\<close>

definition write_failed ::
  "Faults \<Rightarrow> string \<Rightarrow> thrown \<Rightarrow> FileSystem \<Rightarrow> FileSystem list \<Rightarrow>
     (thrown + unit) \<times> FileSystem list" where
  "write_failed faults temp err fs trace =
     (case unlinkSync (unlink_fault faults) temp fs of
        (cleanup, fs') \<Rightarrow>
          (Inl (CliError CONFIG_ERROR (''Failed to write config: '' @ message err)),
           trace @ [fs']))"

text \<open>
  \<open>writeConfig\<close>, with \<open>content\<close> for \<open>JSON.stringify(config, null, 2)\<close> and \<open>now\<close> for
  \<open>Date.now()\<close>. It returns what it throws or \<open>()\<close>, and the states of the file system
  after each of its calls, the last one being the state it leaves.
\<close>

definition writeConfig ::
  "Faults \<Rightarrow> string \<Rightarrow> nat \<Rightarrow> string \<Rightarrow> FileSystem \<Rightarrow> (thrown + unit) \<times> FileSystem list" where
  "writeConfig faults homedir now content fs =
     (case ensureConfigDir faults homedir fs of
        (Inl err, fs1) \<Rightarrow> (Inl err, [fs1])
      | (Inr u, fs1) \<Rightarrow>
     (case writeFileSync (write_fault faults) (tempFile homedir now) content fs1 of
        (Inl err, fs2) \<Rightarrow> write_failed faults (tempFile homedir now) err fs2 [fs1, fs2]
      | (Inr u, fs2) \<Rightarrow>
     (case renameSync (rename_fault faults) (tempFile homedir now) (CONFIG_FILE homedir) fs2 of
        (Inl err, fs3) \<Rightarrow> write_failed faults (tempFile homedir now) err fs3 [fs1, fs2, fs3]
      | (Inr u, fs3) \<Rightarrow> (Inr (), [fs1, fs2, fs3]))))"


section \<open>A remote service for the examples\<close>

text \<open>
  A remote service that knows one issue, \<open>ENG-1\<close> with the labels \<open>L1\<close> and \<open>L2\<close>:
  resolving any other identifier throws, and every update succeeds.
\<close>

definition example_issue :: Issue where
  "example_issue =
     \<lparr>issue_id = ''id-1'', issue_identifier = ''ENG-1'', labels = Inr [''L1'', ''L2'']\<rparr>"

definition example_client :: Client where
  "example_client =
     \<lparr>resolveIssueId =
        (\<lambda>t. if t = ''ENG-1'' then Inr ''id-1'' else Inl (Error ''Issue not found'')),
      issue = (\<lambda>i. Inr (Some example_issue)),
      updateIssue =
        (\<lambda>i input. Inr \<lparr>payload_success = True, payload_issue = Inr (Some example_issue)\<rparr>)\<rparr>"

definition example_remote :: "nat \<Rightarrow> Client" where
  "example_remote k = example_client"

definition example_input :: IssueUpdateInput where
  "example_input =
     \<lparr>stateId = Some ''done'', priority = None, assigneeId = None, projectId = None,
      estimate = None, labelIds = None\<rparr>"

text \<open>
  A remote service on which every identifier resolves, reading an issue throws a value
  that is no \<open>Error\<close>, and every update throws.
\<close>

definition example_failing_client :: Client where
  "example_failing_client =
     \<lparr>resolveIssueId = (\<lambda>t. Inr ''id-2''),
      issue = (\<lambda>i. Inl NonError),
      updateIssue = (\<lambda>i input. Inl (Error ''Network error''))\<rparr>"

text \<open>
  Flags that name the issue \<open>ENG-1\<close> twice.
\<close>

definition example_update_flags :: BulkUpdateFlags where
  "example_update_flags =
     \<lparr>ids_of_update = ''ENG-1, ENG-1'', flag_state_id = Some ''done'', flag_priority = None,
      flag_assignee_id = None, flag_project_id = None, flag_estimate = None,
      flag_label_ids = None\<rparr>"

definition example_label_flags :: BulkLabelFlags where
  "example_label_flags =
     \<lparr>ids_of_label = ''ENG-1, ENG-1'', add_labels = Some ''L2,L3'', remove_labels = Some ''L1''\<rparr>"

text \<open>
  A file system with a stored config file, and three environments: one without faults,
  one where the disk is full when the temp file is written (a part of the data stays in
  it), and one where writing and unlinking both fail.
\<close>

definition example_fs :: FileSystem where
  "example_fs =
     \<lparr>files = [CONFIG_FILE ''/home/u'' \<mapsto> ''OLD''], dirs = {CONFIG_DIR ''/home/u''}\<rparr>"

definition no_faults :: Faults where
  "no_faults =
     \<lparr>mkdir_fault = None, write_fault = None, rename_fault = None, unlink_fault = None\<rparr>"

definition disk_full :: Faults where
  "disk_full =
     \<lparr>mkdir_fault = None,
      write_fault = Some (Error ''ENOSPC: no space left on device'', Some ''NE''),
      rename_fault = None, unlink_fault = None\<rparr>"

definition disk_broken :: Faults where
  "disk_broken =
     \<lparr>mkdir_fault = None,
      write_fault = Some (Error ''EIO: i/o error'', Some ''NE''),
      rename_fault = None, unlink_fault = Some (Error ''EIO: i/o error'')\<rparr>"

section \<open>Properties of the label reconciliation\<close>

lemma new_Set_acc:
  "distinct acc \<Longrightarrow>
     distinct (foldl set_add acc xs) \<and> set (foldl set_add acc xs) = set acc \<union> set xs"
  by (induction xs arbitrary: acc) auto

lemma combinedLabelIds_distinct: "distinct (combinedLabelIds existingLabelIds newIds)"
  using new_Set_acc [of "[]" "existingLabelIds @ newIds"]
  unfolding combinedLabelIds_def new_Set_def by simp

lemma remainingLabelIds_distinct:
  "distinct existingLabelIds \<Longrightarrow> distinct (remainingLabelIds existingLabelIds labelIdsToRemove)"
  by (simp add: remainingLabelIds_def)

lemma newLabelIds_distinct:
  "distinct existingLabelIds \<Longrightarrow> distinct addLabelIds \<Longrightarrow>
     distinct (newLabelIds existingLabelIds addLabelIds removeLabelIds)"
  by (auto simp: newLabelIds_def labelsToAdd_def)

text \<open>
  Claim C1, as amended. The array sent to the update call by \<open>issues bulk-label\<close> holds,
  as a set, the current labels without the labels to remove, together with the labels to
  add, and a label that is both to add and to remove is in it, provided that no label is
  at once on the issue, to add and to remove.
\<close>

theorem newLabelIds_final_set:
  assumes "set existingLabelIds \<inter> set addLabelIds \<inter> set removeLabelIds = {}"
  shows "set (newLabelIds existingLabelIds addLabelIds removeLabelIds)
           = (set existingLabelIds - set removeLabelIds) \<union> set addLabelIds
         \<and> (\<forall>l \<in> set addLabelIds \<inter> set removeLabelIds.
              l \<in> set (newLabelIds existingLabelIds addLabelIds removeLabelIds))"
  using assms by (auto simp: newLabelIds_def labelsToAdd_def)

theorem newLabelIds_final_set_witness:
  "set [''L1'', ''L2''] \<inter> set [''L2'', ''L3''] \<inter> set [''L1'', ''L3''] = {}
   \<and> newLabelIds [''L1'', ''L2''] [''L2'', ''L3''] [''L1'', ''L3''] = [''L2'', ''L3'']
   \<and> set (newLabelIds [''L1'', ''L2''] [''L2'', ''L3''] [''L1'', ''L3''])
       = (set [''L1'', ''L2''] - set [''L1'', ''L3'']) \<union> set [''L2'', ''L3'']
   \<and> ''L3'' \<in> set (newLabelIds [''L1'', ''L2''] [''L2'', ''L3''] [''L1'', ''L3''])"
proof -
  have h: "set [''L1'', ''L2''] \<inter> set [''L2'', ''L3''] \<inter> set [''L1'', ''L3''] = {}"
    by simp
  have e: "newLabelIds [''L1'', ''L2''] [''L2'', ''L3''] [''L1'', ''L3''] = [''L2'', ''L3'']"
    by (simp add: newLabelIds_def labelsToAdd_def)
  from newLabelIds_final_set [OF h] h e show ?thesis by simp
qed

text \<open>
  Claim C1 as stated fails: with \<open>L1\<close> on the issue, to add and to remove, the array
  sent to the update call is empty, so \<open>L1\<close> is not in it and it differs from
  \<open>(current - toRemove) \<union> toAdd\<close>.
\<close>

theorem add_wins_counterexample:
  "newLabelIds [''L1''] [''L1''] [''L1''] = []
   \<and> ''L1'' \<in> set [''L1''] \<inter> set [''L1'']
   \<and> ''L1'' \<notin> set (newLabelIds [''L1''] [''L1''] [''L1''])
   \<and> set (newLabelIds [''L1''] [''L1''] [''L1''])
        \<noteq> (set [''L1''] - set [''L1'']) \<union> set [''L1'']"
  by (simp add: newLabelIds_def labelsToAdd_def)

text \<open>
  Claim C2, as amended. When no label is both to add and to remove, reconciling the
  array that a reconciliation produced, with the same labels to add and to remove,
  gives that array again.
\<close>

theorem newLabelIds_idempotent:
  assumes "set addLabelIds \<inter> set removeLabelIds = {}"
  shows "newLabelIds (newLabelIds existingLabelIds addLabelIds removeLabelIds)
             addLabelIds removeLabelIds
           = newLabelIds existingLabelIds addLabelIds removeLabelIds"
proof -
  let ?kept = "filter (\<lambda>i. \<not> List.member removeLabelIds i) existingLabelIds"
  let ?new = "labelsToAdd addLabelIds existingLabelIds"
  have new: "filter (\<lambda>i. \<not> List.member removeLabelIds i) ?new = ?new"
    using assms by (auto simp: labelsToAdd_def intro!: filter_cong)
  have kept: "filter (\<lambda>i. \<not> List.member removeLabelIds i) ?kept = ?kept"
    by simp
  have "\<forall>a \<in> set addLabelIds. a \<in> set (?kept @ ?new)"
    using assms by (auto simp: labelsToAdd_def)
  then have none: "labelsToAdd addLabelIds (?kept @ ?new) = []"
    by (auto simp: labelsToAdd_def filter_empty_conv)
  show ?thesis
    unfolding newLabelIds_def [of "filter _ _ @ _"]
    unfolding newLabelIds_def using new kept none by simp
qed

theorem newLabelIds_idempotent_witness:
  "set [''L2'', ''L3''] \<inter> set [''L1''] = {}
   \<and> newLabelIds [''L1'', ''L2''] [''L2'', ''L3''] [''L1''] = [''L2'', ''L3'']
   \<and> newLabelIds (newLabelIds [''L1'', ''L2''] [''L2'', ''L3''] [''L1''])
         [''L2'', ''L3''] [''L1'']
       = newLabelIds [''L1'', ''L2''] [''L2'', ''L3''] [''L1'']"
proof -
  have h: "set [''L2'', ''L3''] \<inter> set [''L1''] = {}"
    by simp
  have e: "newLabelIds [''L1'', ''L2''] [''L2'', ''L3''] [''L1''] = [''L2'', ''L3'']"
    by (simp add: newLabelIds_def labelsToAdd_def)
  from newLabelIds_idempotent [OF h, of "[''L1'', ''L2'']"] h e show ?thesis by simp
qed

text \<open>
  Claim C2 as stated fails: with \<open>L1\<close> on the issue, to add and to remove, the first
  reconciliation drops \<open>L1\<close> and the second one, on its result, adds it again.
\<close>

theorem idempotence_counterexample:
  "newLabelIds [''L1''] [''L1''] [''L1''] = []
   \<and> newLabelIds (newLabelIds [''L1''] [''L1''] [''L1'']) [''L1''] [''L1''] = [''L1'']
   \<and> newLabelIds (newLabelIds [''L1''] [''L1''] [''L1'']) [''L1''] [''L1'']
        \<noteq> newLabelIds [''L1''] [''L1''] [''L1'']"
  by (simp add: newLabelIds_def labelsToAdd_def)

text \<open>
  Claim C7 fails on \<open>issues bulk-label\<close>: an ID given twice in \<open>--add-labels\<close> and not on
  the issue is sent twice to the update call, where \<open>issues add-labels\<close> sends it once.
\<close>

theorem bulk_label_sends_duplicates:
  "newLabelIds [] [''L3'', ''L3''] [] = [''L3'', ''L3'']
   \<and> \<not> distinct (newLabelIds [] [''L3'', ''L3''] [])
   \<and> combinedLabelIds [] [''L3'', ''L3''] = [''L3'']"
  by (simp add: newLabelIds_def labelsToAdd_def combinedLabelIds_def new_Set_def)

section \<open>Properties of the batches\<close>

lemma label_task_alone:
  "label_task client addLabelIds removeLabelIds identifier results =
     (case label_task client addLabelIds removeLabelIds identifier [] of
        Inl e \<Rightarrow> Inl e | Inr out \<Rightarrow> Inr (results @ out))"
  unfolding label_task_def label_try_def
  by (simp split: sum.split option.split)

lemma label_task_single:
  "case label_task client addLabelIds removeLabelIds identifier [] of
     Inr [x] \<Rightarrow> True | _ \<Rightarrow> False"
  unfolding label_task_def label_try_def
  by (simp split: sum.split option.split)

lemma label_task_pushes:
  "\<exists>r. \<forall>results. label_task client addLabelIds removeLabelIds identifier results = Inr (results @ [r])"
proof -
  from label_task_single [of client addLabelIds removeLabelIds "identifier"]
  obtain x where x: "label_task client addLabelIds removeLabelIds identifier [] = Inr [x]"
    by (auto split: sum.splits list.splits)
  have "label_task client addLabelIds removeLabelIds identifier results = Inr (results @ [x])"
    for results
    by (subst label_task_alone) (simp add: x)
  then show ?thesis by blast
qed

lemma update_task_alone:
  "update_task client input r results =
     (case update_task client input r [] of Inl e \<Rightarrow> Inl e | Inr out \<Rightarrow> Inr (results @ out))"
  unfolding update_task_def update_try_def
  by (simp split: sum.split option.split)

lemma update_task_single:
  "case update_task client input r [] of Inr [x] \<Rightarrow> True | _ \<Rightarrow> False"
  unfolding update_task_def update_try_def
  by (simp split: sum.split option.split)

lemma update_task_pushes:
  "\<exists>x. \<forall>results. update_task client input r results = Inr (results @ [x])"
proof -
  from update_task_single [of client input r]
  obtain x where x: "update_task client input r [] = Inr [x]"
    by (auto split: sum.splits list.splits)
  have "update_task client input r results = Inr (results @ [x])" for results
    by (subst update_task_alone) (simp add: x)
  then show ?thesis by blast
qed

lemma promise_all_tasks_pushes:
  assumes "\<And>t. \<exists>r. \<forall>results. task t results = Inr (results @ [r])"
  shows "\<exists>out. promise_all_tasks task ts results = Inr (results @ out)
            \<and> list_all2 (\<lambda>t r. task t [] = Inr [r]) ts out"
proof (induction ts arbitrary: results)
  case Nil
  show ?case by simp
next
  case (Cons t ts)
  from assms obtain r where r: "\<And>results. task t results = Inr (results @ [r])"
    by blast
  from Cons.IH [of "results @ [r]"] obtain out where
    out: "promise_all_tasks task ts (results @ [r]) = Inr ((results @ [r]) @ out)"
      "list_all2 (\<lambda>t r. task t [] = Inr [r]) ts out"
    by blast
  have "promise_all_tasks task (t # ts) results = Inr (results @ (r # out))"
    using r out(1) by simp
  moreover have "list_all2 (\<lambda>t r. task t [] = Inr [r]) (t # ts) (r # out)"
    using r [of "[]"] out(2) by simp
  ultimately show ?case by blast
qed

lemma promise_all_values_resolved:
  "\<exists>resolvedIds.
     promise_all_values (map (\<lambda>(k, identifier). resolve_task (remote k) identifier) items)
       = Inr resolvedIds
     \<and> list_all2 (\<lambda>(k, identifier) r. resolve_task (remote k) identifier = Inr r) items resolvedIds"
proof (induction items)
  case Nil
  show ?case by simp
next
  case (Cons p items)
  obtain k ident where p: "p = (k, ident)" by (cases p)
  obtain r where r: "resolve_task (remote k) ident = Inr r"
    by (cases "resolveIssueId (remote k) ident") (auto simp: resolve_task_def)
  from Cons.IH obtain rs where
    "promise_all_values (map (\<lambda>(k, identifier). resolve_task (remote k) identifier) items) = Inr rs"
    "list_all2 (\<lambda>(k, identifier) r. resolve_task (remote k) identifier = Inr r) items rs"
    by blast
  then show ?case using p r by auto
qed

lemma count_success:
  "length (filter (\<lambda>r. success r) rs) + length (filter (\<lambda>r. \<not> success r) rs) = length rs"
  by (rule sum_length_filter_compl)

lemma bulk_label_batch_results:
  "\<exists>s. bulk_label_batch remote order addLabelIds removeLabelIds identifiers = Inr s
     \<and> totalRequested s = length identifiers
     \<and> successCount s + failedCount s = length (results' s)
     \<and> list_all2 (\<lambda>(k, identifier) r.
           label_task (remote k) addLabelIds removeLabelIds identifier [] = Inr [r])
         (order (enumerate 0 identifiers)) (results' s)"
proof -
  let ?task = "\<lambda>(k, identifier). label_task (remote k) addLabelIds removeLabelIds identifier"
  have "\<And>t. \<exists>r. \<forall>results. ?task t results = Inr (results @ [r])"
    using label_task_pushes by (auto simp: split_def)
  from promise_all_tasks_pushes [of ?task "order (enumerate 0 identifiers)" "[]", OF this]
  obtain out where
    out: "promise_all_tasks ?task (order (enumerate 0 identifiers)) [] = Inr out"
      "list_all2 (\<lambda>t r. ?task t [] = Inr [r]) (order (enumerate 0 identifiers)) out"
    by auto
  have "list_all2 (\<lambda>(k, identifier) r.
           label_task (remote k) addLabelIds removeLabelIds identifier [] = Inr [r])
         (order (enumerate 0 identifiers)) out"
    using out(2) by (rule list_all2_mono) auto
  then show ?thesis
    using out(1) by (simp add: bulk_label_batch_def count_success)
qed

lemma bulk_update_batch_results:
  "\<exists>s resolvedIds. bulk_update_batch remote order input identifiers = Inr s
     \<and> totalRequested s = length identifiers
     \<and> successCount s + failedCount s = length (results' s)
     \<and> list_all2 (\<lambda>(k, identifier) r. resolve_task (remote k) identifier = Inr r)
         (enumerate 0 identifiers) resolvedIds
     \<and> list_all2 (\<lambda>(k, r) x. update_task (remote k) input r [] = Inr [x])
         (order (enumerate 0 resolvedIds)) (results' s)"
proof -
  from promise_all_values_resolved [of remote "enumerate 0 identifiers"]
  obtain resolvedIds where
    res: "promise_all_values
            (map (\<lambda>(k, identifier). resolve_task (remote k) identifier) (enumerate 0 identifiers))
          = Inr resolvedIds"
      "list_all2 (\<lambda>(k, identifier) r. resolve_task (remote k) identifier = Inr r)
         (enumerate 0 identifiers) resolvedIds"
    by blast
  let ?task = "\<lambda>(k, r). update_task (remote k) input r"
  have "\<And>t. \<exists>x. \<forall>results. ?task t results = Inr (results @ [x])"
    using update_task_pushes by (auto simp: split_def)
  from promise_all_tasks_pushes [of ?task "order (enumerate 0 resolvedIds)" "[]", OF this]
  obtain out where
    out: "promise_all_tasks ?task (order (enumerate 0 resolvedIds)) [] = Inr out"
      "list_all2 (\<lambda>t x. ?task t [] = Inr [x]) (order (enumerate 0 resolvedIds)) out"
    by auto
  have "list_all2 (\<lambda>(k, r) x. update_task (remote k) input r [] = Inr [x])
         (order (enumerate 0 resolvedIds)) out"
    using out(2) by (rule list_all2_mono) auto
  then show ?thesis
    using res out(1) by (auto simp: bulk_update_batch_def count_success)
qed

lemma bulk_update_batch_counts:
  assumes "\<And>xs. mset (order xs) = mset xs"
  shows "\<exists>s resolvedIds. bulk_update_batch remote order input identifiers = Inr s
            \<and> length (results' s) = length identifiers
            \<and> totalRequested s = length identifiers
            \<and> successCount s + failedCount s = length identifiers
            \<and> list_all2 (\<lambda>(k, identifier) r. resolve_task (remote k) identifier = Inr r)
                (enumerate 0 identifiers) resolvedIds
            \<and> list_all2 (\<lambda>(k, r) x. update_task (remote k) input r [] = Inr [x])
                (order (enumerate 0 resolvedIds)) (results' s)"
proof -
  have len: "length (order xs) = length xs" for xs
    using assms [of xs] by (metis size_mset)
  from bulk_update_batch_results [of remote order input identifiers]
  obtain s resolvedIds where
    s: "bulk_update_batch remote order input identifiers = Inr s"
      "totalRequested s = length identifiers"
      "successCount s + failedCount s = length (results' s)"
      "list_all2 (\<lambda>(k, identifier) r. resolve_task (remote k) identifier = Inr r)
         (enumerate 0 identifiers) resolvedIds"
      "list_all2 (\<lambda>(k, r) x. update_task (remote k) input r [] = Inr [x])
         (order (enumerate 0 resolvedIds)) (results' s)"
    by blast
  have "length resolvedIds = length identifiers"
    using s(4) by (auto dest: list_all2_lengthD)
  moreover have "length (results' s) = length resolvedIds"
    using s(5) len by (auto dest: list_all2_lengthD)
  ultimately have "length (results' s) = length identifiers"
    by simp
  with s show ?thesis
    by auto
qed

lemma bulk_label_batch_counts:
  assumes "\<And>xs. mset (order xs) = mset xs"
  shows "\<exists>s. bulk_label_batch remote order addLabelIds removeLabelIds identifiers = Inr s
            \<and> length (results' s) = length identifiers
            \<and> totalRequested s = length identifiers
            \<and> successCount s + failedCount s = length identifiers
            \<and> list_all2 (\<lambda>(k, identifier) r.
                  label_task (remote k) addLabelIds removeLabelIds identifier [] = Inr [r])
                (order (enumerate 0 identifiers)) (results' s)"
proof -
  have len: "length (order xs) = length xs" for xs
    using assms [of xs] by (metis size_mset)
  from bulk_label_batch_results [of remote order addLabelIds removeLabelIds identifiers]
  obtain s where
    s: "bulk_label_batch remote order addLabelIds removeLabelIds identifiers = Inr s"
      "totalRequested s = length identifiers"
      "successCount s + failedCount s = length (results' s)"
      "list_all2 (\<lambda>(k, identifier) r.
           label_task (remote k) addLabelIds removeLabelIds identifier [] = Inr [r])
         (order (enumerate 0 identifiers)) (results' s)"
    by blast
  have "length (results' s) = length identifiers"
    using s(4) len by (auto dest: list_all2_lengthD)
  with s show ?thesis
    by auto
qed

text \<open>
  Claim C3. Whatever the remote service answers and in whatever order the tasks
  complete, both bulk commands return a summary for a list of \<open>N\<close> identifiers, also
  for \<open>N = 0\<close>, with exactly \<open>N\<close> results, \<open>totalRequested = N\<close> and
  \<open>successCount + failedCount = N\<close>. The results are, one for one, the single results
  that the tasks push, the tasks being the positions of the input in the order in which
  they complete.
\<close>

theorem batch_completeness:
  assumes "\<And>xs. mset (order_u xs) = mset xs" and "\<And>xs. mset (order_l xs) = mset xs"
  shows "(\<exists>s resolvedIds. bulk_update_batch remote order_u input identifiers = Inr s
            \<and> length (results' s) = length identifiers
            \<and> totalRequested s = length identifiers
            \<and> successCount s + failedCount s = length identifiers
            \<and> list_all2 (\<lambda>(k, identifier) r. resolve_task (remote k) identifier = Inr r)
                (enumerate 0 identifiers) resolvedIds
            \<and> list_all2 (\<lambda>(k, r) x. update_task (remote k) input r [] = Inr [x])
                (order_u (enumerate 0 resolvedIds)) (results' s))
       \<and> (\<exists>s. bulk_label_batch remote order_l addLabelIds removeLabelIds identifiers = Inr s
            \<and> length (results' s) = length identifiers
            \<and> totalRequested s = length identifiers
            \<and> successCount s + failedCount s = length identifiers
            \<and> list_all2 (\<lambda>(k, identifier) r.
                  label_task (remote k) addLabelIds removeLabelIds identifier [] = Inr [r])
                (order_l (enumerate 0 identifiers)) (results' s))"
  using bulk_update_batch_counts [of order_u remote input identifiers, OF assms(1)]
    bulk_label_batch_counts [of order_l remote addLabelIds removeLabelIds identifiers,
      OF assms(2)]
  by blast

theorem batch_completeness_witness:
  "(\<forall>xs :: (nat \<times> ResolvedId) list. mset (rev xs) = mset xs)
   \<and> (\<forall>xs :: (nat \<times> string) list. mset (rev xs) = mset xs)
   \<and> (\<exists>s. bulk_update_batch example_remote rev example_input [''ENG-1'', ''nope'']
              = Inr s
          \<and> length (results' s) = 2 \<and> totalRequested s = 2
          \<and> successCount s + failedCount s = 2)
   \<and> (\<exists>s. bulk_label_batch example_remote rev [''L2'', ''L3''] [''L1'']
              [''ENG-1'', ''nope''] = Inr s
          \<and> length (results' s) = 2 \<and> totalRequested s = 2
          \<and> successCount s + failedCount s = 2)
   \<and> (\<exists>s. bulk_update_batch example_remote rev example_input [] = Inr s
          \<and> results' s = [] \<and> totalRequested s = 0
          \<and> successCount s = 0 \<and> failedCount s = 0)
   \<and> (\<exists>s. bulk_label_batch example_remote rev [''L2'', ''L3''] [''L1''] [] = Inr s
          \<and> results' s = [] \<and> totalRequested s = 0
          \<and> successCount s = 0 \<and> failedCount s = 0)"
proof -
  note two = batch_completeness [of rev rev example_remote example_input
      "[''ENG-1'', ''nope'']" "[''L2'', ''L3'']" "[''L1'']", OF mset_rev mset_rev]
  note none = batch_completeness [of rev rev example_remote example_input
      "[]" "[''L2'', ''L3'']" "[''L1'']", OF mset_rev mset_rev]
  from two have "\<exists>s. bulk_update_batch example_remote rev example_input
              [''ENG-1'', ''nope''] = Inr s
          \<and> length (results' s) = 2 \<and> totalRequested s = 2
          \<and> successCount s + failedCount s = 2"
    by (auto simp: numeral_2_eq_2)
  moreover from two have "\<exists>s. bulk_label_batch example_remote rev [''L2'', ''L3'']
              [''L1''] [''ENG-1'', ''nope''] = Inr s
          \<and> length (results' s) = 2 \<and> totalRequested s = 2
          \<and> successCount s + failedCount s = 2"
    by (auto simp: numeral_2_eq_2)
  moreover from none have "\<exists>s. bulk_update_batch example_remote rev example_input []
              = Inr s
          \<and> results' s = [] \<and> totalRequested s = 0
          \<and> successCount s = 0 \<and> failedCount s = 0"
    by auto
  moreover from none have "\<exists>s. bulk_label_batch example_remote rev [''L2'', ''L3'']
              [''L1''] [] = Inr s
          \<and> results' s = [] \<and> totalRequested s = 0
          \<and> successCount s = 0 \<and> failedCount s = 0"
    by auto
  ultimately show ?thesis
    by simp
qed

text \<open>
  Claim C4. Neither bulk command raises because of what happens to an item: the batch
  returns a summary whatever the remote service answers, every result is the one that
  the task of its item produces on its own, from the answers given to that item alone,
  and whatever is thrown inside a task (when resolving the identifier or inside the
  \<open>try\<close> block) becomes one failure result of that item, carrying the message as a
  string.
\<close>

theorem batch_isolation:
  "(\<exists>s. bulk_label_batch remote order_l addLabelIds removeLabelIds identifiers = Inr s
      \<and> list_all2 (\<lambda>(k, identifier) r.
            label_task (remote k) addLabelIds removeLabelIds identifier [] = Inr [r])
          (order_l (enumerate 0 identifiers)) (results' s))
   \<and> (\<exists>s resolvedIds. bulk_update_batch remote order_u input identifiers = Inr s
      \<and> list_all2 (\<lambda>(k, identifier) r. resolve_task (remote k) identifier = Inr r)
          (enumerate 0 identifiers) resolvedIds
      \<and> list_all2 (\<lambda>(k, r) x. update_task (remote k) input r [] = Inr [x])
          (order_u (enumerate 0 resolvedIds)) (results' s))
   \<and> (\<forall>err. label_try client addLabelIds removeLabelIds identifier results = Inl err \<longrightarrow>
         label_task client addLabelIds removeLabelIds identifier results
           = Inr (results @
               [\<lparr>identifier' = identifier, id' = [], success = False,
                 error = Some (message err), labelsAdded = None, labelsRemoved = None\<rparr>]))
   \<and> (\<forall>err. resolveIssueId client identifier = Inl err \<longrightarrow>
         (\<exists>r. resolve_task client identifier = Inr r
            \<and> update_task client input r updated
                = Inr (updated @
                    [\<lparr>identifier' = identifier, id' = [], success = False,
                      error = Some (message err)\<rparr>])))
   \<and> (\<forall>i err. resolveIssueId client identifier = Inr i \<and> i \<noteq> []
           \<and> update_try client input identifier i updated = Inl err \<longrightarrow>
         (\<exists>r. resolve_task client identifier = Inr r
            \<and> update_task client input r updated
                = Inr (updated @
                    [\<lparr>identifier' = identifier, id' = i, success = False,
                      error = Some (message err)\<rparr>])))"
proof (intro conjI)
  show "\<exists>s. bulk_label_batch remote order_l addLabelIds removeLabelIds identifiers = Inr s
      \<and> list_all2 (\<lambda>(k, identifier) r.
            label_task (remote k) addLabelIds removeLabelIds identifier [] = Inr [r])
          (order_l (enumerate 0 identifiers)) (results' s)"
    using bulk_label_batch_results [of remote order_l addLabelIds removeLabelIds identifiers]
    by blast
  show "\<exists>s resolvedIds. bulk_update_batch remote order_u input identifiers = Inr s
      \<and> list_all2 (\<lambda>(k, identifier) r. resolve_task (remote k) identifier = Inr r)
          (enumerate 0 identifiers) resolvedIds
      \<and> list_all2 (\<lambda>(k, r) x. update_task (remote k) input r [] = Inr [x])
          (order_u (enumerate 0 resolvedIds)) (results' s)"
    using bulk_update_batch_results [of remote order_u input identifiers]
    by blast
  show "\<forall>err. label_try client addLabelIds removeLabelIds identifier results = Inl err \<longrightarrow>
         label_task client addLabelIds removeLabelIds identifier results
           = Inr (results @
               [\<lparr>identifier' = identifier, id' = [], success = False,
                 error = Some (message err), labelsAdded = None, labelsRemoved = None\<rparr>])"
    by (simp add: label_task_def)
  show "\<forall>err. resolveIssueId client identifier = Inl err \<longrightarrow>
         (\<exists>r. resolve_task client identifier = Inr r
            \<and> update_task client input r updated
                = Inr (updated @
                    [\<lparr>identifier' = identifier, id' = [], success = False,
                      error = Some (message err)\<rparr>]))"
    by (simp add: resolve_task_def update_task_def unresolved_def)
  show "\<forall>i err. resolveIssueId client identifier = Inr i \<and> i \<noteq> []
           \<and> update_try client input identifier i updated = Inl err \<longrightarrow>
         (\<exists>r. resolve_task client identifier = Inr r
            \<and> update_task client input r updated
                = Inr (updated @
                    [\<lparr>identifier' = identifier, id' = i, success = False,
                      error = Some (message err)\<rparr>]))"
    by (simp add: resolve_task_def update_task_def)
qed

theorem batch_isolation_witness:
  "label_try example_client [''L2'', ''L3''] [''L1''] ''nope'' [] = Inl (Error ''Issue not found'')
   \<and> label_task example_client [''L2'', ''L3''] [''L1''] ''nope'' []
       = Inr [\<lparr>identifier' = ''nope'', id' = [], success = False,
               error = Some ''Issue not found'', labelsAdded = None, labelsRemoved = None\<rparr>]
   \<and> resolveIssueId example_client ''nope'' = Inl (Error ''Issue not found'')
   \<and> (\<exists>r. resolve_task example_client ''nope'' = Inr r
          \<and> update_task example_client example_input r []
              = Inr [\<lparr>identifier' = ''nope'', id' = [], success = False,
                      error = Some ''Issue not found''\<rparr>])
   \<and> resolveIssueId example_failing_client ''ENG-2'' = Inr ''id-2'' \<and> ''id-2'' \<noteq> []
   \<and> update_try example_failing_client example_input ''ENG-2'' ''id-2'' []
       = Inl (Error ''Network error'')
   \<and> (\<exists>r. resolve_task example_failing_client ''ENG-2'' = Inr r
          \<and> update_task example_failing_client example_input r []
              = Inr [\<lparr>identifier' = ''ENG-2'', id' = ''id-2'', success = False,
                      error = Some ''Network error''\<rparr>])
   \<and> (\<exists>s. bulk_label_batch (\<lambda>k. if k = 0 then example_client else example_failing_client)
              rev [''L2'', ''L3''] [''L1''] [''ENG-1'', ''ENG-2''] = Inr s
          \<and> list_all2 (\<lambda>(k, identifier) r.
                label_task (if k = 0 then example_client else example_failing_client)
                  [''L2'', ''L3''] [''L1''] identifier [] = Inr [r])
              (rev (enumerate 0 [''ENG-1'', ''ENG-2''])) (results' s))"
proof -
  note one = batch_isolation [of "\<lambda>k. if k = 0 then example_client else example_failing_client"
      rev "[''L2'', ''L3'']" "[''L1'']" "[''ENG-1'', ''ENG-2'']" rev example_input
      example_client "''nope''" "[]" "[]"]
  note two = batch_isolation [of "\<lambda>k. if k = 0 then example_client else example_failing_client"
      rev "[''L2'', ''L3'']" "[''L1'']" "[''ENG-1'', ''ENG-2'']" rev example_input
      example_failing_client "''ENG-2''" "[]" "[]"]
  have a: "label_try example_client [''L2'', ''L3''] [''L1''] ''nope'' []
             = Inl (Error ''Issue not found'')"
    by (simp add: label_try_def example_client_def)
  have b: "resolveIssueId example_client ''nope'' = Inl (Error ''Issue not found'')"
    by (simp add: example_client_def)
  have c: "resolveIssueId example_failing_client ''ENG-2'' = Inr ''id-2''"
    by (simp add: example_failing_client_def)
  have d: "update_try example_failing_client example_input ''ENG-2'' ''id-2'' []
             = Inl (Error ''Network error'')"
    by (simp add: update_try_def example_failing_client_def)
  from one a have "label_task example_client [''L2'', ''L3''] [''L1''] ''nope'' []
       = Inr [\<lparr>identifier' = ''nope'', id' = [], success = False,
               error = Some ''Issue not found'', labelsAdded = None, labelsRemoved = None\<rparr>]"
    by simp
  moreover from one b have "\<exists>r. resolve_task example_client ''nope'' = Inr r
          \<and> update_task example_client example_input r []
              = Inr [\<lparr>identifier' = ''nope'', id' = [], success = False,
                      error = Some ''Issue not found''\<rparr>]"
    by simp
  moreover from two c d have "\<exists>r. resolve_task example_failing_client ''ENG-2'' = Inr r
          \<and> update_task example_failing_client example_input r []
              = Inr [\<lparr>identifier' = ''ENG-2'', id' = ''id-2'', success = False,
                      error = Some ''Network error''\<rparr>]"
    by simp
  moreover from one have "\<exists>s. bulk_label_batch (\<lambda>k. if k = 0 then example_client else example_failing_client)
              rev [''L2'', ''L3''] [''L1''] [''ENG-1'', ''ENG-2''] = Inr s
          \<and> list_all2 (\<lambda>(k, identifier) r.
                label_task (if k = 0 then example_client else example_failing_client)
                  [''L2'', ''L3''] [''L1''] identifier [] = Inr [r])
              (rev (enumerate 0 [''ENG-1'', ''ENG-2''])) (results' s)"
    by blast
  ultimately show ?thesis using a b c d by simp
qed

text \<open>
  Claim C5. The labels that \<open>issues bulk-label\<close> computes as added are the labels to add
  that are not on the issue, and the labels computed as removed are the labels to remove
  that are on the issue (also in \<open>issues remove-labels\<close> and
  \<open>issues add-labels\<close>); the \<open>labelsAdded\<close> and
  \<open>labelsRemoved\<close> of a success result are these sets, the empty one being reported as
  an absent field.
\<close>

theorem effective_delta:
  "set (labelsToAdd addLabelIds existingLabelIds) = set addLabelIds - set existingLabelIds
   \<and> set (labelsToRemove removeLabelIds existingLabelIds)
       = set removeLabelIds \<inter> set existingLabelIds
   \<and> set (labelsRemoved_single removeLabelIds existingLabelIds)
       = set removeLabelIds \<inter> set existingLabelIds
   \<and> set (labelsAdded_single addLabelIds existingLabelIds)
       = set addLabelIds - set existingLabelIds
   \<and> (resolveIssueId client identifier = Inr issueId
        \<and> issue client issueId = Inr (Some iss)
        \<and> labels iss = Inr existingLabelIds
        \<and> label_task client addLabelIds removeLabelIds identifier results = Inr (results @ [r])
        \<and> success r \<longrightarrow>
      (case labelsAdded r of None \<Rightarrow> {} | Some xs \<Rightarrow> set xs)
        = set addLabelIds - set existingLabelIds
      \<and> (case labelsRemoved r of None \<Rightarrow> {} | Some xs \<Rightarrow> set xs)
        = set removeLabelIds \<inter> set existingLabelIds)"
proof (intro conjI impI)
  show a: "set (labelsToAdd addLabelIds existingLabelIds) = set addLabelIds - set existingLabelIds"
    by (auto simp: labelsToAdd_def)
  show b: "set (labelsToRemove removeLabelIds existingLabelIds)
       = set removeLabelIds \<inter> set existingLabelIds"
    by (auto simp: labelsToRemove_def)
  show "set (labelsRemoved_single removeLabelIds existingLabelIds)
       = set removeLabelIds \<inter> set existingLabelIds"
    by (auto simp: labelsRemoved_single_def)
  show "set (labelsAdded_single addLabelIds existingLabelIds)
       = set addLabelIds - set existingLabelIds"
    by (auto simp: labelsAdded_single_def)
  have rep: "(case reported xs of None \<Rightarrow> {} | Some ys \<Rightarrow> set ys) = set xs" for xs
    by (simp add: reported_def)
  assume h: "resolveIssueId client identifier = Inr issueId
        \<and> issue client issueId = Inr (Some iss)
        \<and> labels iss = Inr existingLabelIds
        \<and> label_task client addLabelIds removeLabelIds identifier results = Inr (results @ [r])
        \<and> success r"
  then have "labelsAdded r = reported (labelsToAdd addLabelIds existingLabelIds)
     \<and> labelsRemoved r = reported (labelsToRemove removeLabelIds existingLabelIds)"
    by (auto simp: label_task_def label_try_def split: sum.splits if_splits)
  then show "(case labelsAdded r of None \<Rightarrow> {} | Some xs \<Rightarrow> set xs)
        = set addLabelIds - set existingLabelIds"
     and "(case labelsRemoved r of None \<Rightarrow> {} | Some xs \<Rightarrow> set xs)
        = set removeLabelIds \<inter> set existingLabelIds"
    using rep a b by simp_all
qed

theorem effective_delta_witness:
  "resolveIssueId example_client ''ENG-1'' = Inr ''id-1''
   \<and> issue example_client ''id-1'' = Inr (Some example_issue)
   \<and> labels example_issue = Inr [''L1'', ''L2'']
   \<and> label_task example_client [''L2'', ''L3''] [''L1''] ''ENG-1'' []
       = Inr [\<lparr>identifier' = ''ENG-1'', id' = ''id-1'', success = True, error = None,
               labelsAdded = Some [''L3''], labelsRemoved = Some [''L1'']\<rparr>]
   \<and> set [''L3''] = set [''L2'', ''L3''] - set [''L1'', ''L2'']
   \<and> set [''L1''] = set [''L1''] \<inter> set [''L1'', ''L2'']"
proof -
  have a: "resolveIssueId example_client ''ENG-1'' = Inr ''id-1''"
    by (simp add: example_client_def)
  have b: "issue example_client ''id-1'' = Inr (Some example_issue)"
    by (simp add: example_client_def)
  have c: "labels example_issue = Inr [''L1'', ''L2'']"
    by (simp add: example_issue_def)
  have d: "label_task example_client [''L2'', ''L3''] [''L1''] ''ENG-1'' []
       = Inr [\<lparr>identifier' = ''ENG-1'', id' = ''id-1'', success = True, error = None,
               labelsAdded = Some [''L3''], labelsRemoved = Some [''L1'']\<rparr>]"
    by (simp add: label_task_def label_try_def example_client_def example_issue_def
        newLabelIds_def labelsToAdd_def labelsToRemove_def reported_def)
  from effective_delta [of "[''L2'', ''L3'']" "[''L1'', ''L2'']" "[''L1'']" example_client
      "''ENG-1''" "''id-1''" example_issue "[]"
      "\<lparr>identifier' = ''ENG-1'', id' = ''id-1'', success = True, error = None,
               labelsAdded = Some [''L3''], labelsRemoved = Some [''L1'']\<rparr>"] a b c d
  have "set [''L3''] = set [''L2'', ''L3''] - set [''L1'', ''L2'']
      \<and> set [''L1''] = set [''L1''] \<inter> set [''L1'', ''L2'']"
    by simp
  then show ?thesis using a b c d by simp
qed


section \<open>Properties of the command line\<close>

lemma length_split_from: "length (split_from sep cur s) = Suc (count_list s sep)"
  by (induction s arbitrary: cur) auto

lemma length_split_trim: "length (split_trim s) = Suc (count_list s CHR '','')"
  by (simp add: split_trim_def split_def length_split_from)

lemma split_trim_nonempty: "split_trim s \<noteq> []"
  using length_split_trim [of s] by auto

lemma split_trim_example: "split_trim ''ENG-1, ENG-1'' = [''ENG-1'', ''ENG-1'']"
  by (simp add: split_trim_def split_def trim_def white_space_def suffix_to_prefix)

lemma split_trim_labels: "split_trim ''L2,L3'' = [''L2'', ''L3'']"  "split_trim ''L1'' = [''L1'']" 
  by (simp_all add: split_trim_def split_def trim_def white_space_def suffix_to_prefix)

lemma example_update_run: "bulk_update_run example_remote rev example_update_flags
   = Inr \<lparr>totalRequested = 2, successCount = 2, failedCount = 0,
        results' =
          [\<lparr>identifier' = ''ENG-1'', id' = ''id-1'', success = True, error = None\<rparr>,
           \<lparr>identifier' = ''ENG-1'', id' = ''id-1'', success = True, error = None\<rparr>],
        updatedFields = [''stateId'']\<rparr>"
  by (simp add: bulk_update_run_def example_update_flags_def build_input_def keys_def split_trim_example
    bulk_update_batch_def resolve_task_def update_task_def update_try_def example_client_def example_issue_def
    example_remote_def enumerate_eq_zip upt_rec Let_def numeral_2_eq_2)

lemma example_label_run: "bulk_label_run example_remote rev example_label_flags
   = Inr \<lparr>totalRequested = 2, successCount = 2, failedCount = 0,
        results' =
          [\<lparr>identifier' = ''ENG-1'', id' = ''id-1'', success = True, error = None, labelsAdded = Some [''L3''], labelsRemoved = Some [''L1'']\<rparr>,
           \<lparr>identifier' = ''ENG-1'', id' = ''id-1'', success = True, error = None, labelsAdded = Some [''L3''], labelsRemoved = Some [''L1'']\<rparr>],
        summary_labelsToAdd = Some [''L2'', ''L3''], summary_labelsToRemove = Some [''L1'']\<rparr>"
  by (simp add: bulk_label_run_def example_label_flags_def split_trim_example split_trim_labels
    bulk_label_batch_def label_task_def label_try_def example_client_def example_issue_def
    newLabelIds_def labelsToAdd_def labelsToRemove_def reported_def
    example_remote_def enumerate_eq_zip upt_rec Let_def numeral_2_eq_2)

lemma bulk_update_run_cases:
  "bulk_update_run remote order flags
     = Inl (CliError INVALID_INPUT
         ''No update fields provided. Use at least one of: --state-id, --priority, --assignee-id, --project-id, --estimate, --label-ids'')
   \<or> bulk_update_run remote order flags
     = bulk_update_batch remote order (build_input flags) (split_trim (ids_of_update flags))"
  by (simp add: bulk_update_run_def Let_def split_trim_nonempty)

lemma bulk_label_run_cases:
  "bulk_label_run remote order flags
     = Inl (CliError INVALID_INPUT
         ''No label operations specified. Use --add-labels and/or --remove-labels'')
   \<or> bulk_label_run remote order flags
     = bulk_label_batch remote order
         (case add_labels flags of None \<Rightarrow> [] | Some s \<Rightarrow> split_trim s)
         (case remove_labels flags of None \<Rightarrow> [] | Some s \<Rightarrow> split_trim s)
         (split_trim (ids_of_label flags))"
  by (simp add: bulk_label_run_def Let_def split_trim_nonempty)

text \<open>
  Claim C6, as amended. The batch inputs of both bulk commands are the pieces of the
  \<open>--ids\<close> string between its commas, each trimmed and none dropped: one more than
  the string has commas, repetitions included. The \<open>totalRequested\<close> of the summary and
  the number of its results are that number.
\<close>

theorem batch_inputs_split_and_trimmed:
  assumes "\<And>xs. mset (order_u xs) = mset xs" and "\<And>xs. mset (order_l xs) = mset xs"
  shows "length (map trim (split CHR '','' ids)) = Suc (count_list ids CHR '','')
     \<and> (\<forall>s. bulk_update_run remote order_u uflags = Inr s \<longrightarrow>
           bulk_update_batch remote order_u (build_input uflags)
               (map trim (split CHR '','' (ids_of_update uflags))) = Inr s
           \<and> totalRequested s = Suc (count_list (ids_of_update uflags) CHR '','')
           \<and> length (results' s) = Suc (count_list (ids_of_update uflags) CHR '',''))
     \<and> (\<forall>s. bulk_label_run remote order_l lflags = Inr s \<longrightarrow>
           (\<exists>addLabelIds removeLabelIds.
              bulk_label_batch remote order_l addLabelIds removeLabelIds
                 (map trim (split CHR '','' (ids_of_label lflags))) = Inr s)
           \<and> totalRequested s = Suc (count_list (ids_of_label lflags) CHR '','')
           \<and> length (results' s) = Suc (count_list (ids_of_label lflags) CHR '',''))"
proof (intro conjI allI impI)
  show "length (map trim (split CHR '','' ids)) = Suc (count_list ids CHR '','')"
    using length_split_trim [of ids] by (simp add: split_trim_def)
next
  fix s
  assume run: "bulk_update_run remote order_u uflags = Inr s"
  with bulk_update_run_cases [of remote order_u uflags]
  have batch: "bulk_update_batch remote order_u (build_input uflags)
                 (split_trim (ids_of_update uflags)) = Inr s"
    by auto
  then show "bulk_update_batch remote order_u (build_input uflags)
               (map trim (split CHR '','' (ids_of_update uflags))) = Inr s"
    by (simp add: split_trim_def)
  from bulk_update_batch_counts [of order_u remote "build_input uflags"
      "split_trim (ids_of_update uflags)", OF assms(1)] batch
  show "totalRequested s = Suc (count_list (ids_of_update uflags) CHR '','')"
    and "length (results' s) = Suc (count_list (ids_of_update uflags) CHR '','')"
    by (auto simp: length_split_trim)
next
  fix s
  assume run: "bulk_label_run remote order_l lflags = Inr s"
  let ?add = "case add_labels lflags of None \<Rightarrow> [] | Some s \<Rightarrow> split_trim s"
  let ?rem = "case remove_labels lflags of None \<Rightarrow> [] | Some s \<Rightarrow> split_trim s"
  from run bulk_label_run_cases [of remote order_l lflags]
  have batch: "bulk_label_batch remote order_l ?add ?rem (split_trim (ids_of_label lflags)) = Inr s"
    by auto
  then show "\<exists>addLabelIds removeLabelIds.
              bulk_label_batch remote order_l addLabelIds removeLabelIds
                 (map trim (split CHR '','' (ids_of_label lflags))) = Inr s"
    unfolding split_trim_def [of "ids_of_label lflags"] by blast
  from bulk_label_batch_counts [of order_l remote ?add ?rem
      "split_trim (ids_of_label lflags)", OF assms(2)] batch
  show "totalRequested s = Suc (count_list (ids_of_label lflags) CHR '','')"
    and "length (results' s) = Suc (count_list (ids_of_label lflags) CHR '','')"
    by (auto simp: length_split_trim)
qed

theorem batch_inputs_split_and_trimmed_witness:
  "(\<forall>xs :: (nat \<times> ResolvedId) list. mset (rev xs) = mset xs)
   \<and> (\<forall>xs :: (nat \<times> string) list. mset (rev xs) = mset xs)
   \<and> ids_of_update example_update_flags = ''ENG-1, ENG-1''
   \<and> ids_of_label example_label_flags = ''ENG-1, ENG-1''
   \<and> Suc (count_list ''ENG-1, ENG-1'' CHR '','') = 2
   \<and> bulk_update_run example_remote rev example_update_flags
       = Inr \<lparr>totalRequested = 2, successCount = 2, failedCount = 0,
           results' =
             [\<lparr>identifier' = ''ENG-1'', id' = ''id-1'', success = True, error = None\<rparr>,
              \<lparr>identifier' = ''ENG-1'', id' = ''id-1'', success = True, error = None\<rparr>],
           updatedFields = [''stateId'']\<rparr>
   \<and> totalRequested
         \<lparr>totalRequested = 2, successCount = 2, failedCount = 0,
           results' =
             [\<lparr>identifier' = ''ENG-1'', id' = ''id-1'', success = True, error = None\<rparr>,
              \<lparr>identifier' = ''ENG-1'', id' = ''id-1'', success = True, error = None\<rparr>],
           updatedFields = [''stateId'']\<rparr> = 2
   \<and> bulk_label_run example_remote rev example_label_flags
       = Inr \<lparr>totalRequested = 2, successCount = 2, failedCount = 0,
           results' =
             [\<lparr>identifier' = ''ENG-1'', id' = ''id-1'', success = True, error = None,
               labelsAdded = Some [''L3''], labelsRemoved = Some [''L1'']\<rparr>,
              \<lparr>identifier' = ''ENG-1'', id' = ''id-1'', success = True, error = None,
               labelsAdded = Some [''L3''], labelsRemoved = Some [''L1'']\<rparr>],
           summary_labelsToAdd = Some [''L2'', ''L3''],
           summary_labelsToRemove = Some [''L1'']\<rparr>
   \<and> totalRequested
         \<lparr>totalRequested = 2, successCount = 2, failedCount = 0,
           results' =
             [\<lparr>identifier' = ''ENG-1'', id' = ''id-1'', success = True, error = None,
               labelsAdded = Some [''L3''], labelsRemoved = Some [''L1'']\<rparr>,
              \<lparr>identifier' = ''ENG-1'', id' = ''id-1'', success = True, error = None,
               labelsAdded = Some [''L3''], labelsRemoved = Some [''L1'']\<rparr>],
           summary_labelsToAdd = Some [''L2'', ''L3''],
           summary_labelsToRemove = Some [''L1'']\<rparr> = 2"
proof -
  note t = batch_inputs_split_and_trimmed [of rev rev "''ENG-1, ENG-1''" example_remote
      example_update_flags example_label_flags, OF mset_rev mset_rev]
  have u: "ids_of_update example_update_flags = ''ENG-1, ENG-1''"
    by (simp add: example_update_flags_def)
  have l: "ids_of_label example_label_flags = ''ENG-1, ENG-1''"
    by (simp add: example_label_flags_def)
  have n: "Suc (count_list ''ENG-1, ENG-1'' CHR '','') = 2"
    by simp
  from t example_update_run u n
  have "totalRequested
         \<lparr>totalRequested = 2, successCount = 2, failedCount = 0,
           results' =
             [\<lparr>identifier' = ''ENG-1'', id' = ''id-1'', success = True, error = None\<rparr>,
              \<lparr>identifier' = ''ENG-1'', id' = ''id-1'', success = True, error = None\<rparr>],
           updatedFields = [''stateId'']\<rparr> = 2"
    by simp
  moreover from t example_label_run l n
  have "totalRequested
         \<lparr>totalRequested = 2, successCount = 2, failedCount = 0,
           results' =
             [\<lparr>identifier' = ''ENG-1'', id' = ''id-1'', success = True, error = None,
               labelsAdded = Some [''L3''], labelsRemoved = Some [''L1'']\<rparr>,
              \<lparr>identifier' = ''ENG-1'', id' = ''id-1'', success = True, error = None,
               labelsAdded = Some [''L3''], labelsRemoved = Some [''L1'']\<rparr>],
           summary_labelsToAdd = Some [''L2'', ''L3''],
           summary_labelsToRemove = Some [''L1'']\<rparr> = 2"
    by simp
  ultimately show ?thesis
    using u l n example_update_run example_label_run by simp
qed

text \<open>
  Claim C6 as stated fails: the identifiers are not deduplicated. For the \<open>--ids\<close>
  value \<open>ENG-1, ENG-1\<close> there is one distinct token, and both commands run two tasks
  and report \<open>totalRequested = 2\<close> with two results.
\<close>

theorem ids_deduplicated_counterexample:
  "ids_of_update example_update_flags = ''ENG-1, ENG-1''
   \<and> ids_of_label example_label_flags = ''ENG-1, ENG-1''
   \<and> split_trim ''ENG-1, ENG-1'' = [''ENG-1'', ''ENG-1'']
   \<and> \<not> distinct (split_trim ''ENG-1, ENG-1'')
   \<and> card (set (split_trim ''ENG-1, ENG-1'')) = 1
   \<and> bulk_update_run example_remote rev example_update_flags
       = Inr \<lparr>totalRequested = 2, successCount = 2, failedCount = 0,
           results' =
             [\<lparr>identifier' = ''ENG-1'', id' = ''id-1'', success = True, error = None\<rparr>,
              \<lparr>identifier' = ''ENG-1'', id' = ''id-1'', success = True, error = None\<rparr>],
           updatedFields = [''stateId'']\<rparr>
   \<and> bulk_label_run example_remote rev example_label_flags
       = Inr \<lparr>totalRequested = 2, successCount = 2, failedCount = 0,
           results' =
             [\<lparr>identifier' = ''ENG-1'', id' = ''id-1'', success = True, error = None,
               labelsAdded = Some [''L3''], labelsRemoved = Some [''L1'']\<rparr>,
              \<lparr>identifier' = ''ENG-1'', id' = ''id-1'', success = True, error = None,
               labelsAdded = Some [''L3''], labelsRemoved = Some [''L1'']\<rparr>],
           summary_labelsToAdd = Some [''L2'', ''L3''],
           summary_labelsToRemove = Some [''L1'']\<rparr>"
  using example_update_run example_label_run
  by (simp add: split_trim_example example_update_flags_def example_label_flags_def)

text \<open>
  Claim C10. Splitting any string on \<open>,\<close> gives at least one piece, so the check
  \<open>identifiers.length === 0\<close> never holds: neither bulk command ends with the error
  \<open>No issue IDs provided\<close>, and every summary has \<open>totalRequested \<ge> 1\<close>.
\<close>

theorem no_issue_ids_branch_unreachable:
  "1 \<le> length (split CHR '','' ids)
   \<and> length (map trim (split CHR '','' ids)) \<noteq> 0
   \<and> bulk_update_run remote order_u uflags \<noteq> Inl (CliError INVALID_INPUT ''No issue IDs provided'')
   \<and> bulk_label_run remote order_l lflags \<noteq> Inl (CliError INVALID_INPUT ''No issue IDs provided'')
   \<and> (\<forall>s. bulk_update_run remote order_u uflags = Inr s \<longrightarrow> 1 \<le> totalRequested s)
   \<and> (\<forall>s. bulk_label_run remote order_l lflags = Inr s \<longrightarrow> 1 \<le> totalRequested s)"
proof (intro conjI allI impI)
  show "1 \<le> length (split CHR '','' ids)"
    by (simp add: split_def length_split_from)
  show "length (map trim (split CHR '','' ids)) \<noteq> 0"
    by (simp add: split_def length_split_from)
  obtain su where su: "bulk_update_batch remote order_u (build_input uflags)
       (split_trim (ids_of_update uflags)) = Inr su"
     "totalRequested su = length (split_trim (ids_of_update uflags))"
    using bulk_update_batch_results by blast
  let ?add = "case add_labels lflags of None \<Rightarrow> [] | Some s \<Rightarrow> split_trim s"
  let ?rem = "case remove_labels lflags of None \<Rightarrow> [] | Some s \<Rightarrow> split_trim s"
  obtain sl where sl: "bulk_label_batch remote order_l ?add ?rem
       (split_trim (ids_of_label lflags)) = Inr sl"
     "totalRequested sl = length (split_trim (ids_of_label lflags))"
    using bulk_label_batch_results by blast
  show "bulk_update_run remote order_u uflags \<noteq> Inl (CliError INVALID_INPUT ''No issue IDs provided'')"
    using bulk_update_run_cases [of remote order_u uflags] su(1) by auto
  show "bulk_label_run remote order_l lflags \<noteq> Inl (CliError INVALID_INPUT ''No issue IDs provided'')"
    using bulk_label_run_cases [of remote order_l lflags] sl(1) by auto
  show "1 \<le> totalRequested s" if "bulk_update_run remote order_u uflags = Inr s" for s
    using that bulk_update_run_cases [of remote order_u uflags] su
    by (auto simp: length_split_trim)
  show "1 \<le> totalRequested s" if "bulk_label_run remote order_l lflags = Inr s" for s
    using that bulk_label_run_cases [of remote order_l lflags] sl
    by (auto simp: length_split_trim)
qed

theorem no_issue_ids_branch_unreachable_witness:
  "bulk_update_run example_remote rev example_update_flags
       = Inr \<lparr>totalRequested = 2, successCount = 2, failedCount = 0,
           results' =
             [\<lparr>identifier' = ''ENG-1'', id' = ''id-1'', success = True, error = None\<rparr>,
              \<lparr>identifier' = ''ENG-1'', id' = ''id-1'', success = True, error = None\<rparr>],
           updatedFields = [''stateId'']\<rparr>
   \<and> (1::nat) \<le> totalRequested
         \<lparr>totalRequested = 2, successCount = 2, failedCount = 0,
           results' =
             [\<lparr>identifier' = ''ENG-1'', id' = ''id-1'', success = True, error = None\<rparr>,
              \<lparr>identifier' = ''ENG-1'', id' = ''id-1'', success = True, error = None\<rparr>],
           updatedFields = [''stateId'']\<rparr>
   \<and> bulk_label_run example_remote rev example_label_flags
       = Inr \<lparr>totalRequested = 2, successCount = 2, failedCount = 0,
           results' =
             [\<lparr>identifier' = ''ENG-1'', id' = ''id-1'', success = True, error = None,
               labelsAdded = Some [''L3''], labelsRemoved = Some [''L1'']\<rparr>,
              \<lparr>identifier' = ''ENG-1'', id' = ''id-1'', success = True, error = None,
               labelsAdded = Some [''L3''], labelsRemoved = Some [''L1'']\<rparr>],
           summary_labelsToAdd = Some [''L2'', ''L3''],
           summary_labelsToRemove = Some [''L1'']\<rparr>
   \<and> (1::nat) \<le> totalRequested
         \<lparr>totalRequested = 2, successCount = 2, failedCount = 0,
           results' =
             [\<lparr>identifier' = ''ENG-1'', id' = ''id-1'', success = True, error = None,
               labelsAdded = Some [''L3''], labelsRemoved = Some [''L1'']\<rparr>,
              \<lparr>identifier' = ''ENG-1'', id' = ''id-1'', success = True, error = None,
               labelsAdded = Some [''L3''], labelsRemoved = Some [''L1'']\<rparr>],
           summary_labelsToAdd = Some [''L2'', ''L3''],
           summary_labelsToRemove = Some [''L1'']\<rparr>"
  using no_issue_ids_branch_unreachable [of "''ENG-1, ENG-1''" example_remote rev
      example_update_flags rev example_label_flags]
    example_update_run example_label_run
  by simp


section \<open>Properties of the identifier resolver\<close>

text \<open>
  Claim C8. A token of the opaque-ID shape is returned unchanged and no lookup is sent;
  a token of neither shape fails with \<open>InvalidIdentifierFormat\<close> and no lookup is sent.
\<close>

theorem resolve_fast_path:
  "(is_opaque_id token \<longrightarrow> resolve lookupByComposite token calls = (Inr token, calls))
   \<and> (\<not> is_opaque_id token \<and> parse_composite token = None \<longrightarrow>
        resolve lookupByComposite token calls = (Inl InvalidIdentifierFormat, calls))"
  by (simp add: resolve_def classify_def)

lemma example_opaque_id: "is_opaque_id ''123e4567-e89b-12d3-a456-426614174000''"
  by code_simp

lemma example_malformed:
  "\<not> is_opaque_id ''not-a-real-id''" "parse_composite ''not-a-real-id'' = None"
  by code_simp+

theorem resolve_fast_path_witness:
  "is_opaque_id ''123e4567-e89b-12d3-a456-426614174000''
   \<and> resolve (\<lambda>p n. Some ''looked-up'') ''123e4567-e89b-12d3-a456-426614174000'' []
       = (Inr ''123e4567-e89b-12d3-a456-426614174000'', [])
   \<and> \<not> is_opaque_id ''not-a-real-id'' \<and> parse_composite ''not-a-real-id'' = None
   \<and> resolve (\<lambda>p n. Some ''looked-up'') ''not-a-real-id'' []
       = (Inl InvalidIdentifierFormat, [])"
  using resolve_fast_path [of "''123e4567-e89b-12d3-a456-426614174000''"
      "\<lambda>p n. Some ''looked-up''" "[]"]
    resolve_fast_path [of "''not-a-real-id''" "\<lambda>p n. Some ''looked-up''" "[]"]
    example_opaque_id example_malformed
  by simp

section \<open>Properties of the config file\<close>

lemma tempFile_neq_CONFIG_FILE: "tempFile homedir now \<noteq> CONFIG_FILE homedir"
  by (simp add: tempFile_def CONFIG_FILE_def join_def)

lemma ensureConfigDir_files:
  "ensureConfigDir faults homedir fs = (r, fs1) \<Longrightarrow> files fs1 = files fs"
  by (auto simp: ensureConfigDir_def mkdirSync_def split: if_splits option.splits)

lemma unlinkSync_other:
  "unlinkSync fault p fs = (r, fs') \<Longrightarrow> q \<noteq> p \<Longrightarrow> files fs' q = files fs q"
  by (auto simp: unlinkSync_def split: option.splits)

lemma unlinkSync_removed:
  "unlinkSync None p fs = (r, fs') \<Longrightarrow> files fs' p = None"
  by (auto simp: unlinkSync_def split: option.splits)

text \<open>
  Claim C9, as amended. \<open>writeConfig\<close> writes the temp file and renames it over the
  config file. In every state the file system passes through, the config file has its
  prior content or the complete new content. When \<open>writeConfig\<close> throws, the config
  file is as before; when the write or the rename fails, a \<open>CONFIG_ERROR\<close> is thrown;
  and the temp file is gone afterwards unless unlinking it fails, which is ignored.
\<close>

theorem writeConfig_atomic:
  assumes "writeConfig faults homedir now content fs = (outcome, trace)"
  shows "(\<forall>s \<in> set trace.
            files s (CONFIG_FILE homedir) = files fs (CONFIG_FILE homedir)
            \<or> files s (CONFIG_FILE homedir) = Some content)
       \<and> (outcome = Inr () \<longrightarrow>
            files (last trace) (CONFIG_FILE homedir) = Some content
            \<and> files (last trace) (tempFile homedir now) = None)
       \<and> (\<forall>err. outcome = Inl err \<longrightarrow>
             files (last trace) (CONFIG_FILE homedir) = files fs (CONFIG_FILE homedir))
       \<and> (fst (ensureConfigDir faults homedir fs) = Inr ()
            \<and> (write_fault faults \<noteq> None \<or> rename_fault faults \<noteq> None) \<longrightarrow>
          (\<exists>m. outcome = Inl (CliError CONFIG_ERROR (''Failed to write config: '' @ m))))
       \<and> (fst (ensureConfigDir faults homedir fs) = Inr () \<and> outcome \<noteq> Inr ()
            \<and> unlink_fault faults = None \<longrightarrow>
          files (last trace) (tempFile homedir now) = None)"
proof -
  obtain r1 fs1 where e: "ensureConfigDir faults homedir fs = (r1, fs1)"
    by (cases "ensureConfigDir faults homedir fs")
  then have f1: "files fs1 = files fs"
    by (rule ensureConfigDir_files)
  note neq = tempFile_neq_CONFIG_FILE [of homedir now]
  show ?thesis
  proof (cases r1)
    case (Inl err)
    with assms e f1 show ?thesis
      by (auto simp: writeConfig_def)
  next
    case (Inr u)
    obtain r2 fs2 where w: "writeFileSync (write_fault faults) (tempFile homedir now) content fs1
        = (r2, fs2)"
      by (cases "writeFileSync (write_fault faults) (tempFile homedir now) content fs1")
    then have f2: "files fs2 (CONFIG_FILE homedir) = files fs (CONFIG_FILE homedir)"
      using f1 neq by (auto simp: writeFileSync_def split: option.splits)
    show ?thesis
    proof (cases r2)
      case (Inl err)
      obtain c fs' where u: "unlinkSync (unlink_fault faults) (tempFile homedir now) fs2 = (c, fs')"
        by (cases "unlinkSync (unlink_fault faults) (tempFile homedir now) fs2")
      then have f': "files fs' (CONFIG_FILE homedir) = files fs (CONFIG_FILE homedir)"
        using unlinkSync_other [OF u, of "CONFIG_FILE homedir"] f2 neq by auto
      have gone: "unlink_fault faults = None \<Longrightarrow> files fs' (tempFile homedir now) = None"
        using u unlinkSync_removed by auto
      have out: "outcome = Inl (CliError CONFIG_ERROR (''Failed to write config: '' @ message err))"
        and tr: "trace = [fs1, fs2, fs']"
        using assms e w u \<open>r1 = Inr u\<close> Inl by (auto simp: writeConfig_def write_failed_def)
      show ?thesis
        using out tr f1 f2 f' gone e \<open>r1 = Inr u\<close> by auto
    next
      case (Inr u2)
      then have nw: "write_fault faults = None"
        and fs2: "fs2 = fs1\<lparr>files := (files fs1)(tempFile homedir now \<mapsto> content)\<rparr>"
        using w by (auto simp: writeFileSync_def split: option.splits)
      obtain r3 fs3 where rn: "renameSync (rename_fault faults) (tempFile homedir now)
          (CONFIG_FILE homedir) fs2 = (r3, fs3)"
        by (cases "renameSync (rename_fault faults) (tempFile homedir now) (CONFIG_FILE homedir) fs2")
      show ?thesis
      proof (cases r3)
        case (Inl err)
        then have fs3: "fs3 = fs2"
          using rn fs2 by (auto simp: renameSync_def split: option.splits)
        obtain c fs' where u: "unlinkSync (unlink_fault faults) (tempFile homedir now) fs3 = (c, fs')"
          by (cases "unlinkSync (unlink_fault faults) (tempFile homedir now) fs3")
        then have f': "files fs' (CONFIG_FILE homedir) = files fs (CONFIG_FILE homedir)"
          using unlinkSync_other [OF u, of "CONFIG_FILE homedir"] f2 fs3 neq by auto
        have gone: "unlink_fault faults = None \<Longrightarrow> files fs' (tempFile homedir now) = None"
          using u unlinkSync_removed by auto
        have out: "outcome = Inl (CliError CONFIG_ERROR (''Failed to write config: '' @ message err))"
          and tr: "trace = [fs1, fs2, fs3, fs']"
          using assms e w rn u \<open>r1 = Inr u\<close> \<open>r2 = Inr u2\<close> Inl
          by (auto simp: writeConfig_def write_failed_def)
        show ?thesis
          using out tr f1 f2 fs3 f' gone e \<open>r1 = Inr u\<close> by auto
      next
        case (Inr u3)
        then have nr: "rename_fault faults = None"
          and f3: "files fs3 (CONFIG_FILE homedir) = Some content"
          and t3: "files fs3 (tempFile homedir now) = None"
          using rn fs2 neq by (auto simp: renameSync_def split: option.splits)
        have out: "outcome = Inr ()" and tr: "trace = [fs1, fs2, fs3]"
          using assms e w rn \<open>r1 = Inr u\<close> \<open>r2 = Inr u2\<close> Inr
          by (auto simp: writeConfig_def)
        show ?thesis
          using out tr f1 f2 f3 t3 nw nr e by auto
      qed
    qed
  qed
qed

lemma writeConfig_no_faults:
  "fst (writeConfig no_faults ''/home/u'' 42 ''NEW'' example_fs) = Inr ()"
  by (simp add: writeConfig_def ensureConfigDir_def existsSync_def writeFileSync_def
      renameSync_def no_faults_def example_fs_def)

lemma writeConfig_disk_full:
  "fst (ensureConfigDir disk_full ''/home/u'' example_fs) = Inr ()"
  "fst (writeConfig disk_full ''/home/u'' 42 ''NEW'' example_fs)
     = Inl (CliError CONFIG_ERROR ''Failed to write config: ENOSPC: no space left on device'')"
  by (simp_all add: writeConfig_def ensureConfigDir_def existsSync_def writeFileSync_def
      write_failed_def unlinkSync_def disk_full_def example_fs_def)

theorem writeConfig_atomic_witness:
  "writeConfig no_faults ''/home/u'' 42 ''NEW'' example_fs
     = (Inr (), snd (writeConfig no_faults ''/home/u'' 42 ''NEW'' example_fs))
   \<and> files (last (snd (writeConfig no_faults ''/home/u'' 42 ''NEW'' example_fs)))
         (CONFIG_FILE ''/home/u'') = Some ''NEW''
   \<and> files (last (snd (writeConfig no_faults ''/home/u'' 42 ''NEW'' example_fs)))
         (tempFile ''/home/u'' 42) = None
   \<and> writeConfig disk_full ''/home/u'' 42 ''NEW'' example_fs
       = (Inl (CliError CONFIG_ERROR
                 ''Failed to write config: ENOSPC: no space left on device''),
          snd (writeConfig disk_full ''/home/u'' 42 ''NEW'' example_fs))
   \<and> fst (ensureConfigDir disk_full ''/home/u'' example_fs) = Inr ()
   \<and> write_fault disk_full \<noteq> None \<and> unlink_fault disk_full = None
   \<and> files (last (snd (writeConfig disk_full ''/home/u'' 42 ''NEW'' example_fs)))
         (CONFIG_FILE ''/home/u'') = Some ''OLD''
   \<and> files (last (snd (writeConfig disk_full ''/home/u'' 42 ''NEW'' example_fs)))
         (tempFile ''/home/u'' 42) = None"
proof -
  have ok: "writeConfig no_faults ''/home/u'' 42 ''NEW'' example_fs
     = (Inr (), snd (writeConfig no_faults ''/home/u'' 42 ''NEW'' example_fs))"
    using writeConfig_no_faults by (simp add: prod_eq_iff)
  have full: "writeConfig disk_full ''/home/u'' 42 ''NEW'' example_fs
       = (Inl (CliError CONFIG_ERROR
                 ''Failed to write config: ENOSPC: no space left on device''),
          snd (writeConfig disk_full ''/home/u'' 42 ''NEW'' example_fs))"
    using writeConfig_disk_full(2) by (simp add: prod_eq_iff)
  have flt: "write_fault disk_full \<noteq> None" "unlink_fault disk_full = None"
    by (simp_all add: disk_full_def)
  have old: "files example_fs (CONFIG_FILE ''/home/u'') = Some ''OLD''"
    by (simp add: example_fs_def)
  from writeConfig_atomic [OF ok] writeConfig_atomic [OF full] writeConfig_disk_full(1) flt old
  show ?thesis
    using ok full by simp
qed

text \<open>
  Claim C9 as stated fails in its clause on the cleanup: when the write fails after a
  part of the data has reached the temp file and the unlink fails as well, the error of
  the unlink is ignored and the temp file stays.
\<close>

theorem temp_file_cleanup_counterexample:
  "fst (writeConfig disk_broken ''/home/u'' 42 ''NEW'' example_fs)
     = Inl (CliError CONFIG_ERROR ''Failed to write config: EIO: i/o error'')
   \<and> files (last (snd (writeConfig disk_broken ''/home/u'' 42 ''NEW'' example_fs)))
         (tempFile ''/home/u'' 42) = Some ''NE''
   \<and> files (last (snd (writeConfig disk_broken ''/home/u'' 42 ''NEW'' example_fs)))
         (CONFIG_FILE ''/home/u'') = Some ''OLD''"
  using tempFile_neq_CONFIG_FILE [of "''/home/u''" 42]
  by (simp add: writeConfig_def ensureConfigDir_def existsSync_def writeFileSync_def
      write_failed_def unlinkSync_def disk_broken_def example_fs_def)

end
